theory Spec2Isabelle
  imports Complex_Main "HOL-Library.Log_Nat"
begin

section \<open>Torch front end: the symbolic function for \<open>aten::equal\<close>\<close>

text \<open>
  \<open>front_end/torch/process.py\<close> builds ONNX nodes through \<open>g.op\<close>. A torch value carries
  the scalar type and the sizes that \<open>input.type().scalarType()\<close> and
  \<open>helper._get_tensor_sizes\<close> read (both may be unknown, Python's \<open>None\<close>); its origin is
  either an argument of the traced graph or the output of an emitted node.
\<close>

datatype onnx_attr = AttrInt int | AttrBoolTensor bool

datatype origin
  = GraphArg nat
  | NodeOut string "origin list" "(string \<times> onnx_attr) list"

record tvalue =
  tv_origin :: origin
  scalarType :: "string option"
  tensor_sizes :: "int option list option"

type_synonym tgraph = "origin list"

text \<open>\<open>g.op(kind, *inputs, **attrs)\<close>: appends the node to the graph and returns its output,
  whose type is left to torch's own inference (unknown here).\<close>

definition g_op :: "tgraph \<Rightarrow> string \<Rightarrow> tvalue list \<Rightarrow> (string \<times> onnx_attr) list \<Rightarrow> tgraph \<times> tvalue" where
  "g_op g kind ins attrs =
     (let n = NodeOut kind (map tv_origin ins) attrs
      in (g @ [n], \<lparr>tv_origin = n, scalarType = None, tensor_sizes = None\<rparr>))"

text \<open>\<open>torch._C._onnx.TensorProtoDataType.BOOL\<close>\<close>

definition TensorProto_BOOL :: int where
  "TensorProto_BOOL = 9"

definition convert_to_bool :: "tgraph \<Rightarrow> tvalue \<Rightarrow> tgraph \<times> tvalue" where
  "convert_to_bool g input =
     (if scalarType input \<noteq> Some ''Bool''
      then g_op g ''Cast'' [input] [(''to'', AttrInt TensorProto_BOOL)]
      else (g, input))"

datatype torch_error = TorchAssertionError string

definition convert_logical ::
  "tgraph \<Rightarrow> tvalue \<Rightarrow> tvalue option \<Rightarrow> string \<Rightarrow> torch_error + tgraph \<times> tvalue" where
  "convert_logical g input other op_type =
     (if \<not> length op_type > 0 then Inl (TorchAssertionError ''Meets empty op_type in convert_logical!'')
      else case other of
        None \<Rightarrow> (let (g1, a) = convert_to_bool g input in Inr (g_op g1 op_type [a] []))
      | Some other' \<Rightarrow>
          (let (g1, a) = convert_to_bool g input;
               (g2, b) = convert_to_bool g1 other'
           in Inr (g_op g2 op_type [a, b] [])))"

definition convert_equal :: "tgraph \<Rightarrow> tvalue \<Rightarrow> tvalue \<Rightarrow> torch_error + tgraph \<times> tvalue" where
  "convert_equal g input other =
     (let input_shape = tensor_sizes input;
          other_shape = tensor_sizes other
      in if input_shape \<noteq> other_shape
         then Inr (g_op g ''Constant'' [] [(''value'', AttrBoolTensor False)])
         else case convert_logical g input (Some other) ''Equal'' of
                Inl e \<Rightarrow> Inl e
              | Inr (g1, equal) \<Rightarrow>
                  (let (g2, not_equal) = g_op g1 ''Not'' [equal] [];
                       (g3, reduce_sum) = g_op g2 ''ReduceSum'' [not_equal] [(''keepdims'', AttrInt 0)]
                   in Inr (g_op g3 ''Not'' [reduce_sum] [])))"

section \<open>The numpy fragment used by the quantized-add operator\<close>

subsection \<open>Element types\<close>

datatype idt = Int8 | Int16 | Int32 | Int64 | UInt8 | UInt16 | UInt32 | UInt64

datatype fdt = Float32 | Float64

datatype dtype = IntT idt | FloatT fdt

fun bits :: "idt \<Rightarrow> nat" where
  "bits Int8 = 8" | "bits Int16 = 16" | "bits Int32 = 32" | "bits Int64 = 64"
| "bits UInt8 = 8" | "bits UInt16 = 16" | "bits UInt32 = 32" | "bits UInt64 = 64"

fun is_signed :: "idt \<Rightarrow> bool" where
  "is_signed Int8 = True" | "is_signed Int16 = True" | "is_signed Int32 = True" | "is_signed Int64 = True"
| "is_signed UInt8 = False" | "is_signed UInt16 = False" | "is_signed UInt32 = False" | "is_signed UInt64 = False"

text \<open>\<open>np.iinfo(dtype).min\<close> and \<open>np.iinfo(dtype).max\<close>\<close>

definition iinfo_min :: "idt \<Rightarrow> int" where
  "iinfo_min d = (if is_signed d then - (2 ^ (bits d - 1)) else 0)"

definition iinfo_max :: "idt \<Rightarrow> int" where
  "iinfo_max d = (if is_signed d then 2 ^ (bits d - 1) - 1 else 2 ^ bits d - 1)"

text \<open>Integer arithmetic of a fixed width wraps around (two's complement).\<close>

definition wrap :: "idt \<Rightarrow> int \<Rightarrow> int" where
  "wrap d x = (if is_signed d then (x + 2 ^ (bits d - 1)) mod 2 ^ bits d - 2 ^ (bits d - 1)
               else x mod 2 ^ bits d)"

definition in_range :: "idt \<Rightarrow> int \<Rightarrow> bool" where
  "in_range d x \<longleftrightarrow> iinfo_min d \<le> x \<and> x \<le> iinfo_max d"

subsection \<open>IEEE 754 binary floating point\<close>

text \<open>
  A float is a rational, a negative zero, an infinity or a NaN; \<open>Fin 0\<close> is the positive
  zero. Every arithmetic operation returns the exact result rounded to the format
  (round to nearest, ties to even), as IEEE 754 prescribes for \<open>+ - * /\<close>.
\<close>

datatype fl = Fin rat | NZero | PInf | NInf | NaN

fun prec :: "fdt \<Rightarrow> nat" where
  "prec Float32 = 24" | "prec Float64 = 53"

fun emin :: "fdt \<Rightarrow> int" where
  "emin Float32 = - 126" | "emin Float64 = - 1022"

fun emax :: "fdt \<Rightarrow> int" where
  "emax Float32 = 127" | "emax Float64 = 1023"

definition pow2 :: "int \<Rightarrow> rat" where
  "pow2 e = (if 0 \<le> e then 2 ^ nat e else 1 / 2 ^ nat (- e))"

text \<open>Round half to even, to an integer.\<close>

definition rhe :: "rat \<Rightarrow> int" where
  "rhe x = (let f = \<lfloor>x\<rfloor>; d = x - of_int f
            in if d < 1 / 2 then f
               else if 1 / 2 < d then f + 1
               else if even f then f else f + 1)"

text \<open>The binary exponent of a positive rational: \<open>2 ^ e \<le> x < 2 ^ (e + 1)\<close>.\<close>

definition ilog2 :: "rat \<Rightarrow> int" where
  "ilog2 x = (if 1 \<le> x then int (floorlog 2 (nat \<lfloor>x\<rfloor>)) - 1
              else - int (floorlog 2 (nat (\<lceil>1 / x\<rceil> - 1))))"

definition signed_zero :: "bool \<Rightarrow> fl" where
  "signed_zero neg = (if neg then NZero else Fin 0)"

definition signed_inf :: "bool \<Rightarrow> fl" where
  "signed_inf neg = (if neg then NInf else PInf)"

definition fround :: "fdt \<Rightarrow> rat \<Rightarrow> fl" where
  "fround f x =
     (if x = 0 then Fin 0
      else let m = \<bar>x\<bar>;
               e = max (ilog2 m) (emin f);
               u = pow2 (e - int (prec f) + 1);
               n = rhe (m / u);
               r = of_int n * u
           in if pow2 (emax f + 1) \<le> r then signed_inf (x < 0)
              else if n = 0 then signed_zero (x < 0)
              else Fin (if x < 0 then - r else r))"

fun is_nan :: "fl \<Rightarrow> bool" where
  "is_nan NaN = True" | "is_nan _ = False"

fun is_inf :: "fl \<Rightarrow> bool" where
  "is_inf PInf = True" | "is_inf NInf = True" | "is_inf _ = False"

fun is_zero :: "fl \<Rightarrow> bool" where
  "is_zero (Fin r) = (r = 0)" | "is_zero NZero = True" | "is_zero _ = False"

fun is_neg :: "fl \<Rightarrow> bool" where
  "is_neg (Fin r) = (r < 0)" | "is_neg NZero = True" | "is_neg NInf = True" | "is_neg _ = False"

fun fval :: "fl \<Rightarrow> rat" where
  "fval (Fin r) = r" | "fval _ = 0"

fun fneg :: "fl \<Rightarrow> fl" where
  "fneg (Fin r) = (if r = 0 then NZero else Fin (- r))"
| "fneg NZero = Fin 0"
| "fneg PInf = NInf"
| "fneg NInf = PInf"
| "fneg NaN = NaN"

definition fmul :: "fdt \<Rightarrow> fl \<Rightarrow> fl \<Rightarrow> fl" where
  "fmul f a b =
     (if is_nan a \<or> is_nan b then NaN
      else if is_inf a \<or> is_inf b
        then (if is_zero a \<or> is_zero b then NaN else signed_inf (is_neg a \<noteq> is_neg b))
      else if is_zero a \<or> is_zero b then signed_zero (is_neg a \<noteq> is_neg b)
      else fround f (fval a * fval b))"

definition fdiv :: "fdt \<Rightarrow> fl \<Rightarrow> fl \<Rightarrow> fl" where
  "fdiv f a b =
     (if is_nan a \<or> is_nan b then NaN
      else if is_inf a then (if is_inf b then NaN else signed_inf (is_neg a \<noteq> is_neg b))
      else if is_inf b then signed_zero (is_neg a \<noteq> is_neg b)
      else if is_zero b then (if is_zero a then NaN else signed_inf (is_neg a \<noteq> is_neg b))
      else if is_zero a then signed_zero (is_neg a \<noteq> is_neg b)
      else fround f (fval a / fval b))"

definition fadd :: "fdt \<Rightarrow> fl \<Rightarrow> fl \<Rightarrow> fl" where
  "fadd f a b =
     (if is_nan a \<or> is_nan b then NaN
      else if is_inf a then (if is_inf b \<and> a \<noteq> b then NaN else a)
      else if is_inf b then b
      else if is_zero a \<and> is_zero b then (if a = NZero \<and> b = NZero then NZero else Fin 0)
      else fround f (fval a + fval b))"

definition fsub :: "fdt \<Rightarrow> fl \<Rightarrow> fl \<Rightarrow> fl" where
  "fsub f a b = fadd f a (fneg b)"

text \<open>Conversions: integer to float, and between float formats.\<close>

definition f_of_int :: "fdt \<Rightarrow> int \<Rightarrow> fl" where
  "f_of_int f i = fround f (of_int i)"

fun fconv :: "fdt \<Rightarrow> fl \<Rightarrow> fl" where
  "fconv f (Fin r) = fround f r"
| "fconv f x = x"

text \<open>
  Float to integer (a C cast): the value truncated toward zero when that is representable
  in the target type. For a NaN, an infinity or a value out of range the C standard leaves
  the result undefined; the platform's choice is the parameter \<open>ub\<close>, and the result is a
  value of the target type whatever it is.
\<close>

definition trunc :: "rat \<Rightarrow> int" where
  "trunc r = (if 0 \<le> r then \<lfloor>r\<rfloor> else \<lceil>r\<rceil>)"

definition cast_f2i :: "(idt \<Rightarrow> fl \<Rightarrow> int) \<Rightarrow> idt \<Rightarrow> fl \<Rightarrow> int" where
  "cast_f2i ub d x =
     (case x of
        Fin r \<Rightarrow> (let k = trunc r
                  in if iinfo_min d \<le> k \<and> k \<le> iinfo_max d then k else wrap d (ub d x))
      | NZero \<Rightarrow> 0
      | _ \<Rightarrow> wrap d (ub d x))"

text \<open>\<open>np.rint\<close>, which \<open>np.around\<close> with \<open>decimals=0\<close> applies to a float array.\<close>

fun frint :: "fl \<Rightarrow> fl" where
  "frint (Fin r) = (let k = rhe r in if k = 0 \<and> r < 0 then NZero else Fin (of_int k))"
| "frint x = x"

text \<open>The order of the non-NaN floats, and numpy's clip kernel
  \<open>_NPY_MIN(_NPY_MAX(x, lo), hi)\<close>, in which a NaN \<open>x\<close> is returned as it is.\<close>

fun frank :: "fl \<Rightarrow> int" where
  "frank NInf = - 1" | "frank PInf = 1" | "frank _ = 0"

definition fless :: "fl \<Rightarrow> fl \<Rightarrow> bool" where
  "fless a b = (frank a < frank b \<or> (frank a = frank b \<and> fval a < fval b))"

definition npy_max :: "fl \<Rightarrow> fl \<Rightarrow> fl" where
  "npy_max a b = (if is_nan a then a else if fless b a then a else b)"

definition npy_min :: "fl \<Rightarrow> fl \<Rightarrow> fl" where
  "npy_min a b = (if is_nan a then a else if fless a b then a else b)"

definition npy_clip :: "fl \<Rightarrow> fl \<Rightarrow> fl \<Rightarrow> fl" where
  "npy_clip x lo hi = npy_min (npy_max x lo) hi"

subsection \<open>Tensors, broadcasting and type promotion\<close>

text \<open>A tensor: element type, shape and the elements in row-major order.\<close>

datatype tensor = ITensor idt "nat list" "int list" | FTensor fdt "nat list" "fl list"

fun dtype_of :: "tensor \<Rightarrow> dtype" where
  "dtype_of (ITensor d sh xs) = IntT d"
| "dtype_of (FTensor f sh xs) = FloatT f"

fun shape_of :: "tensor \<Rightarrow> nat list" where
  "shape_of (ITensor d sh xs) = sh"
| "shape_of (FTensor f sh xs) = sh"

text \<open>Shapes are aligned at their last axis; two extents are compatible when they are
  equal or one of them is 1.\<close>

fun bshape_rev :: "nat list \<Rightarrow> nat list \<Rightarrow> nat list option" where
  "bshape_rev [] ys = Some ys"
| "bshape_rev xs [] = Some xs"
| "bshape_rev (x # xs) (y # ys) =
     (if x = y \<or> y = 1 then map_option ((#) x) (bshape_rev xs ys)
      else if x = 1 then map_option ((#) y) (bshape_rev xs ys)
      else None)"

definition broadcast_shapes :: "nat list \<Rightarrow> nat list \<Rightarrow> nat list option" where
  "broadcast_shapes s1 s2 = map_option rev (bshape_rev (rev s1) (rev s2))"

fun bcast :: "nat list \<Rightarrow> nat list \<Rightarrow> 'a list \<Rightarrow> 'a list" where
  "bcast (d # s) (n # t) xs =
     (if d = n
      then concat (map (\<lambda>i. bcast s t (take (prod_list s) (drop (i * prod_list s) xs))) [0..<d])
      else concat (replicate n (bcast s t xs)))"
| "bcast s t xs = xs"

definition broadcast_to :: "nat list \<Rightarrow> nat list \<Rightarrow> 'a list \<Rightarrow> 'a list" where
  "broadcast_to s t xs =
     (if s = t then xs else bcast (replicate (length t - length s) 1 @ s) t xs)"

text \<open>\<open>np.promote_types\<close> on the element types above.\<close>

fun widen_unsigned :: "idt \<Rightarrow> dtype" where
  "widen_unsigned UInt8 = IntT Int16"
| "widen_unsigned UInt16 = IntT Int32"
| "widen_unsigned UInt32 = IntT Int64"
| "widen_unsigned d = FloatT Float64"

definition promote_int :: "idt \<Rightarrow> idt \<Rightarrow> dtype" where
  "promote_int a b =
     (if is_signed a = is_signed b then IntT (if bits b \<le> bits a then a else b)
      else let s = (if is_signed a then a else b);
               u = (if is_signed a then b else a)
           in if bits u < bits s then IntT s else widen_unsigned u)"

definition promote_int_float :: "idt \<Rightarrow> fdt \<Rightarrow> fdt" where
  "promote_int_float d f = (if f = Float32 \<and> bits d \<le> 16 then Float32 else Float64)"

fun promote_types :: "dtype \<Rightarrow> dtype \<Rightarrow> dtype" where
  "promote_types (IntT a) (IntT b) = promote_int a b"
| "promote_types (IntT a) (FloatT f) = FloatT (promote_int_float a f)"
| "promote_types (FloatT f) (IntT b) = FloatT (promote_int_float b f)"
| "promote_types (FloatT f) (FloatT g) = FloatT (if f = Float32 \<and> g = Float32 then Float32 else Float64)"

text \<open>The elements of an operand in the promoted type (unchanged when the operand already
  has that type).\<close>

fun as_ints :: "idt \<Rightarrow> tensor \<Rightarrow> int list" where
  "as_ints d (ITensor d' sh xs) = (if d' = d then xs else map (wrap d) xs)"
| "as_ints d (FTensor f sh xs) = []"

fun as_floats :: "fdt \<Rightarrow> tensor \<Rightarrow> fl list" where
  "as_floats f (ITensor d sh xs) = map (f_of_int f) xs"
| "as_floats f (FTensor f' sh xs) = (if f' = f then xs else map (fconv f) xs)"

subsection \<open>Python values and exceptions\<close>

datatype pyval = PTensor tensor | PStr string

datatype exn
  = AssertionError string "pyval option"
  | AttributeError
  | TypeError
  | ValueError
  | BaseRaised string

subsection \<open>The array operations\<close>

text \<open>A binary ufunc (\<open>-\<close>, \<open>*\<close>, \<open>np.add\<close>): broadcast, convert both operands to the promoted
  type, operate elementwise in that type. Shapes that do not broadcast raise ValueError.\<close>

definition np_binop ::
  "(int \<Rightarrow> int \<Rightarrow> int) \<Rightarrow> (fdt \<Rightarrow> fl \<Rightarrow> fl \<Rightarrow> fl) \<Rightarrow> tensor \<Rightarrow> tensor \<Rightarrow> exn + tensor" where
  "np_binop iop fop a b =
     (case broadcast_shapes (shape_of a) (shape_of b) of
        None \<Rightarrow> Inl ValueError
      | Some sh \<Rightarrow>
          (case promote_types (dtype_of a) (dtype_of b) of
             IntT d \<Rightarrow>
               Inr (ITensor d sh (map2 (\<lambda>x y. wrap d (iop x y))
                      (broadcast_to (shape_of a) sh (as_ints d a))
                      (broadcast_to (shape_of b) sh (as_ints d b))))
           | FloatT f \<Rightarrow>
               Inr (FTensor f sh (map2 (fop f)
                      (broadcast_to (shape_of a) sh (as_floats f a))
                      (broadcast_to (shape_of b) sh (as_floats f b))))))"

definition np_subtract :: "tensor \<Rightarrow> tensor \<Rightarrow> exn + tensor" where
  "np_subtract = np_binop (-) fsub"

definition np_multiply :: "tensor \<Rightarrow> tensor \<Rightarrow> exn + tensor" where
  "np_multiply = np_binop (*) fmul"

definition np_add :: "tensor \<Rightarrow> tensor \<Rightarrow> exn + tensor" where
  "np_add = np_binop (+) fadd"

text \<open>\<open>/\<close> is true division: always a float result, float64 for two integer arrays.\<close>

definition np_true_divide :: "tensor \<Rightarrow> tensor \<Rightarrow> exn + tensor" where
  "np_true_divide a b =
     (case broadcast_shapes (shape_of a) (shape_of b) of
        None \<Rightarrow> Inl ValueError
      | Some sh \<Rightarrow>
          (let f = (case promote_types (dtype_of a) (dtype_of b) of IntT d \<Rightarrow> Float64 | FloatT f \<Rightarrow> f)
           in Inr (FTensor f sh (map2 (fdiv f)
                      (broadcast_to (shape_of a) sh (as_floats f a))
                      (broadcast_to (shape_of b) sh (as_floats f b))))))"

fun np_around :: "tensor \<Rightarrow> tensor" where
  "np_around (ITensor d sh xs) = ITensor d sh xs"
| "np_around (FTensor f sh xs) = FTensor f sh (map frint xs)"

text \<open>\<open>np.clip(x, lo, hi)\<close> with Python integers as bounds. For a float array the bounds are
  converted to its format. (The integer-array case is not reached from the operator below,
  whose clipped array is a true quotient plus a zero point.)\<close>

fun np_clip :: "tensor \<Rightarrow> int \<Rightarrow> int \<Rightarrow> tensor" where
  "np_clip (FTensor f sh xs) lo hi =
     FTensor f sh (map (\<lambda>x. npy_clip x (f_of_int f lo) (f_of_int f hi)) xs)"
| "np_clip (ITensor d sh xs) lo hi = ITensor d sh (map (\<lambda>x. wrap d (min (max x lo) hi)) xs)"

text \<open>\<open>x.astype(dt)\<close>, to a float type and to an integer type.\<close>

fun np_astype_float :: "fdt \<Rightarrow> tensor \<Rightarrow> tensor" where
  "np_astype_float f (ITensor d sh xs) = FTensor f sh (map (f_of_int f) xs)"
| "np_astype_float f (FTensor f' sh xs) = FTensor f sh (if f' = f then xs else map (fconv f) xs)"

fun np_astype_int :: "(idt \<Rightarrow> fl \<Rightarrow> int) \<Rightarrow> idt \<Rightarrow> tensor \<Rightarrow> tensor" where
  "np_astype_int ub d (ITensor d' sh xs) = ITensor d sh (if d' = d then xs else map (wrap d) xs)"
| "np_astype_int ub d (FTensor f sh xs) = ITensor d sh (map (cast_f2i ub d) xs)"

fun np_astype :: "(idt \<Rightarrow> fl \<Rightarrow> int) \<Rightarrow> dtype \<Rightarrow> tensor \<Rightarrow> tensor" where
  "np_astype ub (IntT d) t = np_astype_int ub d t"
| "np_astype ub (FloatT f) t = np_astype_float f t"

text \<open>\<open>np.iinfo\<close> raises ValueError on a float type.\<close>

fun np_iinfo :: "dtype \<Rightarrow> exn + idt" where
  "np_iinfo (IntT d) = Inr d"
| "np_iinfo (FloatT f) = Inl ValueError"

text \<open>\<open>np.array(0, dtype=dt)\<close>\<close>

fun np_zero :: "dtype \<Rightarrow> tensor" where
  "np_zero (IntT d) = ITensor d [] [0]"
| "np_zero (FloatT f) = FTensor f [] [Fin 0]"

section \<open>The quantized-add operator \<open>QLinearAddMsOp\<close>\<close>

subsection \<open>The node\<close>

datatype AttrType = INT | FLOAT | INTS | FLOATS | STRING | TENSOR

text \<open>\<open>Attribute(name, {'type': t, 'value': v})\<close>; the value may be \<open>None\<close>.\<close>

record attribute =
  attr_type :: AttrType
  attr_value :: "pyval option"

text \<open>
  The node's state: the attribute store \<open>self.__dict__['_attr']\<close>, the values of its input
  tensors as \<open>get_input_tensors()\<close> returns them (\<open>None\<close> for a tensor whose value is not
  known), and the output tensor that \<open>set_out_tensor\<close> writes.
\<close>

record node =
  node_attr :: "string \<rightharpoonup> attribute"
  input_tensors :: "tensor option list"
  out_tensor :: "tensor option"

text \<open>
  What the operator uses and \<open>contrib_ops.py\<close> does not define: the two methods of the base
  classes (\<open>super().__getattr__\<close>, \<open>super().infer_shape\<close>), each of which returns or raises,
  and the platform's result for a float-to-integer cast that C leaves undefined.
\<close>

record env =
  cast_ub :: "idt \<Rightarrow> fl \<Rightarrow> int"
  op_getattr :: "node \<Rightarrow> string \<Rightarrow> exn + pyval option"
  op_infer_shape :: "node \<Rightarrow> exn + node"

text \<open>A method body: runs on the node, returns a value or raises, and leaves a node.\<close>

type_synonym 'a M = "node \<Rightarrow> (exn + 'a) \<times> node"

definition returnM :: "'a \<Rightarrow> 'a M" where
  "returnM x = (\<lambda>n. (Inr x, n))"

definition bindM :: "'a M \<Rightarrow> ('a \<Rightarrow> 'b M) \<Rightarrow> 'b M" where
  "bindM m k = (\<lambda>n. case m n of (Inl e, n') \<Rightarrow> (Inl e, n') | (Inr x, n') \<Rightarrow> k x n')"

definition liftE :: "exn + 'a \<Rightarrow> 'a M" where
  "liftE r = (\<lambda>n. (r, n))"

subsection \<open>\<open>__getattr__\<close>\<close>

definition input_names :: "string list" where
  "input_names = [''A'', ''A_scale'', ''A_zero_point'', ''B'',
                  ''B_scale'', ''B_zero_point'', ''C_scale'', ''C_zero_point'']"

definition zero_point_names :: "string list" where
  "zero_point_names = [''A_zero_point'', ''B_zero_point'', ''C_zero_point'']"

text \<open>\<open>list.index\<close> (of an element that is in the list) and the substring test \<open>sub in s\<close>.\<close>

fun index_of :: "'a list \<Rightarrow> 'a \<Rightarrow> nat" where
  "index_of [] y = 0"
| "index_of (x # xs) y = (if x = y then 0 else Suc (index_of xs y))"

fun str_startswith :: "string \<Rightarrow> string \<Rightarrow> bool" where
  "str_startswith s [] = True"
| "str_startswith [] (c # p) = False"
| "str_startswith (d # s) (c # p) = (d = c \<and> str_startswith s p)"

fun str_contains :: "string \<Rightarrow> string \<Rightarrow> bool" where
  "str_contains p [] = (p = [])"
| "str_contains p (c # s) = (str_startswith (c # s) p \<or> str_contains p s)"

text \<open>\<open>self.__dict__['_attr'][item].value\<close>, with \<open>None\<close> for a missing key (first \<open>try\<close>).\<close>

definition stored_value :: "node \<Rightarrow> string \<Rightarrow> pyval option" where
  "stored_value n item = (case node_attr n item of None \<Rightarrow> None | Some a \<Rightarrow> attr_value a)"

definition cache_attr :: "node \<Rightarrow> string \<Rightarrow> pyval option \<Rightarrow> node" where
  "cache_attr n item v =
     n\<lparr>node_attr := (node_attr n)(item \<mapsto> \<lparr>attr_type = TENSOR, attr_value = v\<rparr>)\<rparr>"

text \<open>
  Lines 26 to 35: the value at the input position of \<open>item\<close>, converted to float32 for a
  scale, and cached. \<open>np.array(None).astype(np.float32)\<close> raises TypeError before anything
  is cached.
\<close>

definition from_inputs :: "string \<Rightarrow> (pyval option) M" where
  "from_inputs item n =
     (if item \<in> set input_names then
        (let item_idx = index_of input_names item;
             inputs = input_tensors n
         in if length inputs > item_idx then
              (let ret = inputs ! item_idx
               in if str_contains ''scale'' item then
                    (case ret of
                       None \<Rightarrow> (Inl TypeError, n)
                     | Some t \<Rightarrow>
                         (let r = Some (PTensor (np_astype_float Float32 t))
                          in (Inr r, cache_attr n item r)))
                  else (Inr (map_option PTensor ret), cache_attr n item (map_option PTensor ret)))
            else (Inr None, n))
      else (Inr None, n))"

text \<open>
  The whole lookup. An exception inside the second \<open>try\<close> leaves \<open>ret = None\<close> and keeps
  what was cached before it; \<open>self.A\<close> is a lookup of its own, made twice on the path of
  the default zero point (once for the test, once for \<open>self.A.dtype\<close>).
\<close>

function getattr :: "env \<Rightarrow> string \<Rightarrow> (pyval option) M" where
  "getattr E item n =
     (let ret0 = stored_value n item;
          (ret, n') =
            (if ret0 = None then
               (case from_inputs item n of
                  (Inl e, n1) \<Rightarrow> (None, n1)
                | (Inr ret1, n1) \<Rightarrow>
                    (if ret1 = None \<and> item \<in> set zero_point_names then
                       (case getattr E ''A'' n1 of
                          (Inl e, n2) \<Rightarrow> (None, n2)
                        | (Inr None, n2) \<Rightarrow> (None, n2)
                        | (Inr (Some a), n2) \<Rightarrow>
                            (case getattr E ''A'' n2 of
                               (Inr (Some (PTensor t)), n3) \<Rightarrow>
                                 (let z = Some (PTensor (np_zero (dtype_of t)))
                                  in (z, cache_attr n3 item z))
                             | (r, n3) \<Rightarrow> (None, n3)))
                     else (ret1, n1)))
             else (ret0, n))
      in if ret = None then (op_getattr E n' item, n') else (Inr ret, n'))"
  by pat_completeness auto
termination
  by (relation "measure (\<lambda>(E, item, n). if item \<in> set zero_point_names then 1 else 0)")
     (auto simp: zero_point_names_def)

declare getattr.simps [simp del]

subsection \<open>\<open>infer_shape\<close>\<close>

text \<open>What Python does with a looked-up value: a method or field of \<open>None\<close> or of a string
  raises AttributeError, \<open>None\<close> or a string as an operand of array arithmetic raises
  TypeError.\<close>

fun py_tensor_attr :: "pyval option \<Rightarrow> exn + tensor" where
  "py_tensor_attr (Some (PTensor t)) = Inr t"
| "py_tensor_attr v = Inl AttributeError"

fun py_operand :: "pyval option \<Rightarrow> exn + tensor" where
  "py_operand (Some (PTensor t)) = Inr t"
| "py_operand v = Inl TypeError"

text \<open>Lines 49 and 50:
  \<open>(self.X.astype(np.int32) - self.X_zero_point) * self.X_scale\<close>.\<close>

definition dequantize :: "env \<Rightarrow> string \<Rightarrow> string \<Rightarrow> string \<Rightarrow> tensor M" where
  "dequantize E x x_zero_point x_scale =
     bindM (getattr E x) (\<lambda>xv.
     bindM (liftE (py_tensor_attr xv)) (\<lambda>xt.
     bindM (getattr E x_zero_point) (\<lambda>zv.
     bindM (liftE (py_operand zv)) (\<lambda>zt.
     bindM (liftE (np_subtract (np_astype_int (cast_ub E) Int32 xt) zt)) (\<lambda>diff.
     bindM (getattr E x_scale) (\<lambda>sv.
     bindM (liftE (py_operand sv)) (\<lambda>st.
     liftE (np_multiply diff st))))))))"

text \<open>Lines 52 to 55.\<close>

definition requantize :: "env \<Rightarrow> tensor \<Rightarrow> tensor M" where
  "requantize E float_y =
     bindM (getattr E ''C_zero_point'') (\<lambda>z1.
     bindM (liftE (py_tensor_attr z1)) (\<lambda>zt1.
     bindM (liftE (np_iinfo (dtype_of zt1))) (\<lambda>d1.
     bindM (getattr E ''C_zero_point'') (\<lambda>z2.
     bindM (liftE (py_tensor_attr z2)) (\<lambda>zt2.
     bindM (liftE (np_iinfo (dtype_of zt2))) (\<lambda>d2.
     (let out_min = iinfo_min d1; out_max = iinfo_max d2 in
     bindM (getattr E ''C_scale'') (\<lambda>sv.
     bindM (liftE (py_operand sv)) (\<lambda>st.
     bindM (liftE (np_true_divide float_y st)) (\<lambda>q.
     bindM (getattr E ''C_zero_point'') (\<lambda>z3.
     bindM (liftE (py_operand z3)) (\<lambda>zt3.
     bindM (liftE (np_add (np_around q) zt3)) (\<lambda>shifted.
     bindM (getattr E ''C_zero_point'') (\<lambda>z4.
     bindM (liftE (py_tensor_attr z4)) (\<lambda>zt4.
     returnM (np_astype (cast_ub E) (dtype_of zt4) (np_clip shifted out_min out_max)))))))))))))))))"

definition set_out_tensor :: "tensor \<Rightarrow> unit M" where
  "set_out_tensor t = (\<lambda>n. (Inr (), n\<lparr>out_tensor := Some t\<rparr>))"

definition invalid_inputs_length :: string where
  "invalid_inputs_length = ''Meets invalid inputs length of QLinearAddMs op (%s)''"

text \<open>The failing \<open>assert\<close> evaluates its message, a lookup of \<open>self.name\<close>, and raises
  AssertionError with it.\<close>

definition infer_shape :: "env \<Rightarrow> unit M" where
  "infer_shape E n =
     (case op_infer_shape E n of
        Inl e \<Rightarrow> (Inl e, n)
      | Inr n0 \<Rightarrow>
          (let inputs = input_tensors n0
           in if \<not> length inputs \<ge> 7 then
                (case getattr E ''name'' n0 of
                   (Inl e, n1) \<Rightarrow> (Inl e, n1)
                 | (Inr v, n1) \<Rightarrow> (Inl (AssertionError invalid_inputs_length v), n1))
              else
                bindM (dequantize E ''A'' ''A_zero_point'' ''A_scale'') (\<lambda>float_a.
                bindM (dequantize E ''B'' ''B_zero_point'' ''B_scale'') (\<lambda>float_b.
                bindM (liftE (np_add float_a float_b)) (\<lambda>float_y.
                bindM (requantize E float_y) (\<lambda>out_tensor.
                set_out_tensor out_tensor)))) n0))"

subsection \<open>The lookup policy, as the specification words it\<close>

text \<open>
  A declared value wins; otherwise the value at the corresponding input position (a scale
  as float32); otherwise, for a zero point, the zero of the element type of \<open>A\<close>.
\<close>

definition declared_or_input :: "node \<Rightarrow> string \<Rightarrow> pyval option" where
  "declared_or_input n item =
     (case stored_value n item of
        Some v \<Rightarrow> Some v
      | None \<Rightarrow>
          if item \<in> set input_names \<and> index_of input_names item < length (input_tensors n)
          then (case input_tensors n ! index_of input_names item of
                  None \<Rightarrow> None
                | Some t \<Rightarrow> Some (PTensor (if str_contains ''scale'' item
                                             then np_astype_float Float32 t else t)))
          else None)"

definition resolve :: "node \<Rightarrow> string \<Rightarrow> pyval option" where
  "resolve n item =
     (case declared_or_input n item of
        Some v \<Rightarrow> Some v
      | None \<Rightarrow>
          if item \<in> set zero_point_names
          then (case declared_or_input n ''A'' of
                  Some (PTensor a) \<Rightarrow> Some (PTensor (np_zero (dtype_of a)))
                | _ \<Rightarrow> None)
          else None)"

text \<open>Two node states that a method cannot tell apart: same inputs, same output, and the
  same value for every name.\<close>

definition same_view :: "node \<Rightarrow> node \<Rightarrow> bool" where
  "same_view n n' \<longleftrightarrow>
     input_tensors n' = input_tensors n \<and> out_tensor n' = out_tensor n \<and>
     (\<forall>item. resolve n' item = resolve n item)"

subsection \<open>The values the inference step computes\<close>

text \<open>
  The array computations of lines 49 to 55 on the values that the lookups return, without
  the node: what \<open>dequantize\<close>, \<open>requantize\<close> and \<open>infer_shape\<close> are shown to compute
  below.
\<close>

definition bindE :: "exn + 'a \<Rightarrow> ('a \<Rightarrow> exn + 'b) \<Rightarrow> exn + 'b" where
  "bindE r k = (case r of Inl e \<Rightarrow> Inl e | Inr x \<Rightarrow> k x)"

definition dequantize_value ::
  "(idt \<Rightarrow> fl \<Rightarrow> int) \<Rightarrow> pyval option \<Rightarrow> pyval option \<Rightarrow> pyval option \<Rightarrow> exn + tensor" where
  "dequantize_value ub xv zv sv =
     bindE (py_tensor_attr xv) (\<lambda>xt.
     bindE (py_operand zv) (\<lambda>zt.
     bindE (np_subtract (np_astype_int ub Int32 xt) zt) (\<lambda>diff.
     bindE (py_operand sv) (\<lambda>st.
     np_multiply diff st))))"

definition requantize_value ::
  "(idt \<Rightarrow> fl \<Rightarrow> int) \<Rightarrow> tensor \<Rightarrow> pyval option \<Rightarrow> pyval option \<Rightarrow> exn + tensor" where
  "requantize_value ub float_y zv sv =
     bindE (py_tensor_attr zv) (\<lambda>zt.
     bindE (np_iinfo (dtype_of zt)) (\<lambda>d.
     bindE (py_operand sv) (\<lambda>st.
     bindE (np_true_divide float_y st) (\<lambda>q.
     bindE (np_add (np_around q) zt) (\<lambda>shifted.
     Inr (np_astype ub (dtype_of zt) (np_clip shifted (iinfo_min d) (iinfo_max d))))))))"

definition infer_value :: "(idt \<Rightarrow> fl \<Rightarrow> int) \<Rightarrow> (string \<Rightarrow> pyval option) \<Rightarrow> exn + tensor" where
  "infer_value ub \<rho> =
     bindE (dequantize_value ub (\<rho> ''A'') (\<rho> ''A_zero_point'') (\<rho> ''A_scale'')) (\<lambda>float_a.
     bindE (dequantize_value ub (\<rho> ''B'') (\<rho> ''B_zero_point'') (\<rho> ''B_scale'')) (\<lambda>float_b.
     bindE (np_add float_a float_b) (\<lambda>float_y.
     requantize_value ub float_y (\<rho> ''C_zero_point'') (\<rho> ''C_scale''))))"

subsection \<open>Requantization, as the specification words it\<close>

text \<open>
  \<open>y = clip(round(q) + zero_point, dtype_min, dtype_max)\<close> on integers, for one float
  quotient \<open>q\<close>: \<open>round\<close> is round-half-to-even, the sum is the integer sum, \<open>clip\<close> saturates
  to the range of the type, an infinite quotient saturates by its sign. A NaN has no
  integer value: the cast of it is the platform's.
\<close>

definition clip_int :: "idt \<Rightarrow> int \<Rightarrow> int" where
  "clip_int T k = max (iinfo_min T) (min (iinfo_max T) k)"

definition requantize_spec :: "(idt \<Rightarrow> fl \<Rightarrow> int) \<Rightarrow> idt \<Rightarrow> fl \<Rightarrow> int \<Rightarrow> int" where
  "requantize_spec ub T q z =
     (case q of
        Fin r \<Rightarrow> clip_int T (rhe r + z)
      | NZero \<Rightarrow> clip_int T z
      | PInf \<Rightarrow> iinfo_max T
      | NInf \<Rightarrow> iinfo_min T
      | NaN \<Rightarrow> cast_f2i ub T NaN)"

subsection \<open>Example environment and nodes\<close>

text \<open>An environment whose base-class methods do nothing: the base lookup finds nothing
  (\<open>None\<close>), the base \<open>infer_shape\<close> returns; an undefined cast gives 0.\<close>

definition plain_env :: env where
  "plain_env = \<lparr>cast_ub = (\<lambda>d x. 0), op_getattr = (\<lambda>n item. Inr None), op_infer_shape = Inr\<rparr>"

definition named_store :: "string \<rightharpoonup> attribute" where
  "named_store = [''name'' \<mapsto> \<lparr>attr_type = STRING, attr_value = Some (PStr ''qadd'')\<rparr>]"

text \<open>A node with a declared \<open>A_scale\<close> of 0.25 next to an input \<open>A_scale\<close> of 0.5.\<close>

definition declared_scale_node :: node where
  "declared_scale_node =
     \<lparr>node_attr = named_store(''A_scale'' \<mapsto>
         \<lparr>attr_type = TENSOR, attr_value = Some (PTensor (FTensor Float32 [] [Fin (1 / 4)]))\<rparr>),
      input_tensors = [Some (ITensor UInt8 [2] [10, 20]), Some (FTensor Float32 [] [Fin (1 / 2)])],
      out_tensor = None\<rparr>"

text \<open>A node with four inputs, \<open>A\<close> of type uint8 and \<open>B\<close> of type int8; \<open>B_zero_point\<close> is
  neither declared nor an input.\<close>

definition mixed_node :: node where
  "mixed_node =
     \<lparr>node_attr = named_store,
      input_tensors = [Some (ITensor UInt8 [2] [10, 20]), Some (FTensor Float32 [] [Fin (1 / 2)]),
                       Some (ITensor UInt8 [] [0]), Some (ITensor Int8 [2] [- 5, 5])],
      out_tensor = None\<rparr>"

text \<open>A node with five of its inputs only.\<close>

definition short_node :: node where
  "short_node =
     \<lparr>node_attr = named_store,
      input_tensors = [Some (ITensor UInt8 [2] [10, 20]), Some (FTensor Float32 [] [Fin (1 / 2)]),
                       Some (ITensor UInt8 [] [0]), Some (ITensor UInt8 [2] [5, 5]),
                       Some (FTensor Float32 [] [Fin (1 / 2)])],
      out_tensor = None\<rparr>"

text \<open>A node whose \<open>A\<close> holds the least int32 value, with an int32 zero point of 1.\<close>

definition wide_node :: node where
  "wide_node =
     \<lparr>node_attr = named_store,
      input_tensors = [Some (ITensor Int32 [1] [- 2147483648]), Some (FTensor Float32 [] [Fin 1]),
                       Some (ITensor Int32 [] [1])],
      out_tensor = None\<rparr>"

text \<open>A node whose uint8 zero point (200) exceeds an element of its uint8 \<open>A\<close>.\<close>

definition low_node :: node where
  "low_node =
     \<lparr>node_attr = named_store,
      input_tensors = [Some (ITensor UInt8 [2] [3, 250]), Some (FTensor Float32 [] [Fin (1 / 2)]),
                       Some (ITensor UInt8 [] [200])],
      out_tensor = None\<rparr>"

text \<open>The scenario of the specification: \<open>A = [10, 20]\<close> and \<open>B = [5, 5]\<close>, uint8, both with
  scale 0.5 and zero point 0; output scale 1.0 and zero point 0 (uint8).\<close>

definition qadd_example :: node where
  "qadd_example =
     \<lparr>node_attr = named_store,
      input_tensors = [Some (ITensor UInt8 [2] [10, 20]), Some (FTensor Float32 [] [Fin (1 / 2)]),
                       Some (ITensor UInt8 [] [0]),
                       Some (ITensor UInt8 [2] [5, 5]), Some (FTensor Float32 [] [Fin (1 / 2)]),
                       Some (ITensor UInt8 [] [0]),
                       Some (FTensor Float32 [] [Fin 1]), Some (ITensor UInt8 [] [0])],
      out_tensor = None\<rparr>"

section \<open>Lemmas on rounding\<close>

lemma pow2_powi: "pow2 e = 2 powi e"
  by (simp add: pow2_def power_int_def power_one_over)

lemma pow2_pos [simp]: "0 < pow2 e"
  by (simp add: pow2_powi)

lemma pow2_abs [simp]: "\<bar>pow2 e\<bar> = pow2 e"
  by (simp add: abs_of_pos)

lemma pow2_nonzero [simp]: "pow2 e \<noteq> 0"
  by (simp add: pow2_powi)

lemma pow2_add: "pow2 (a + b) = pow2 a * pow2 b"
  by (simp add: pow2_powi power_int_add)

lemma pow2_diff: "pow2 (a - b) = pow2 a / pow2 b"
  by (simp add: pow2_powi power_int_diff)

lemma pow2_mono: "a \<le> b \<Longrightarrow> pow2 a \<le> pow2 b"
  by (simp add: pow2_powi power_int_increasing)

lemma pow2_less_cancel: "pow2 a < pow2 b \<Longrightarrow> a < b"
  using pow2_mono [of b a] by (cases "a < b") auto

lemma pow2_nat: "0 \<le> e \<Longrightarrow> pow2 e = of_int (2 ^ nat e)"
  by (simp add: pow2_def)

lemma ilog2_le:
  assumes "0 < x"
  shows "pow2 (ilog2 x) \<le> x"
proof (cases "1 \<le> x")
  case True
  define N where "N = nat \<lfloor>x\<rfloor>"
  have N: "0 < N" using True by (simp add: N_def)
  then have fl: "0 < floorlog 2 N" by (simp add: floorlog_def)
  have "(2::nat) ^ (floorlog 2 N - 1) \<le> N" using floorlog_bounds [of N 2] N by simp
  then have "(of_nat (2 ^ (floorlog 2 N - 1)) :: rat) \<le> of_nat N" by (simp only: of_nat_le_iff)
  also have "(of_nat N :: rat) = of_int \<lfloor>x\<rfloor>" using True by (simp add: N_def)
  also have "\<dots> \<le> x" by simp
  finally have "(2::rat) ^ (floorlog 2 N - 1) \<le> x" by simp
  moreover have "ilog2 x = int (floorlog 2 N) - 1" using True by (simp add: ilog2_def N_def)
  moreover have "nat (int (floorlog 2 N) - 1) = floorlog 2 N - 1" by simp
  ultimately show ?thesis using fl by (simp add: pow2_def)
next
  case False
  define M where "M = nat (\<lceil>1 / x\<rceil> - 1)"
  define L where "L = floorlog 2 M"
  have "M < 2 ^ L"
  proof (cases "M = 0")
    case True then show ?thesis by simp
  next
    case False then show ?thesis using floorlog_bounds [of M 2] by (simp add: L_def)
  qed
  then have "int M < 2 ^ L" by (metis of_nat_less_iff of_nat_numeral of_nat_power)
  moreover have "int M \<ge> \<lceil>1 / x\<rceil> - 1" unfolding M_def by linarith
  ultimately have "\<lceil>1 / x\<rceil> \<le> 2 ^ L" by linarith
  then have "1 / x \<le> of_int (2 ^ L)" by (simp only: ceiling_le_iff)
  then have "1 / x \<le> 2 ^ L" by simp
  then have "1 \<le> 2 ^ L * x" using assms by (simp add: pos_divide_le_eq)
  then have "1 / 2 ^ L \<le> x" by (simp add: pos_divide_le_eq mult.commute)
  moreover have "ilog2 x = - int L" using False by (simp add: ilog2_def L_def M_def)
  ultimately show ?thesis by (auto simp: pow2_def)
qed

lemma rhe_of_int [simp]: "rhe (of_int k) = k"
  by (simp add: rhe_def)

lemma rhe_close: "\<bar>of_int (rhe x) - x\<bar> \<le> 1 / 2"
proof -
  have "of_int \<lfloor>x\<rfloor> \<le> x" "x < of_int \<lfloor>x\<rfloor> + 1" by linarith+
  then show ?thesis by (auto simp: rhe_def Let_def abs_le_iff)
qed


lemma fround_exact:
  assumes n0: "n \<noteq> 0" and nb: "\<bar>n\<bar> < 2 ^ prec f"
    and k1: "emin f - int (prec f) + 1 \<le> k" and k2: "k + int (prec f) \<le> emax f + 1"
  shows "fround f (of_int n * pow2 k) = Fin (of_int n * pow2 k)"
proof -
  let ?x = "of_int n * pow2 k :: rat"
  let ?p = "int (prec f)"
  define m where "m = \<bar>?x\<bar>"
  have m_eq: "m = of_int \<bar>n\<bar> * pow2 k" by (simp add: m_def abs_mult)
  have m_pos: "0 < m" using n0 by (simp add: m_eq)
  have x0: "?x \<noteq> 0" using n0 by simp
  define e where "e = max (ilog2 m) (emin f)"
  have "(of_int \<bar>n\<bar> :: rat) < of_int (2 ^ prec f)" using nb by (simp only: of_int_less_iff)
  then have "(of_int \<bar>n\<bar> :: rat) < pow2 ?p" by (simp add: pow2_def)
  then have "m < pow2 ?p * pow2 k" by (simp add: m_eq)
  also have "\<dots> = pow2 (?p + k)" by (simp only: pow2_add)
  finally have m_lt: "m < pow2 (?p + k)" .
  then have "pow2 (ilog2 m) < pow2 (?p + k)" using ilog2_le [OF m_pos] by simp
  then have "ilog2 m < ?p + k" by (rule pow2_less_cancel)
  then have e_le: "e \<le> k + ?p - 1" using k1 by (simp add: e_def)
  define j where "j = k - (e - ?p + 1)"
  have j0: "0 \<le> j" using e_le by (simp add: j_def)
  have "m / pow2 (e - ?p + 1) = of_int \<bar>n\<bar> * pow2 j"
    by (simp add: m_eq j_def pow2_diff)
  also have "\<dots> = of_int (\<bar>n\<bar> * 2 ^ nat j)" using j0 by (simp add: pow2_nat)
  finally have q: "m / pow2 (e - ?p + 1) = of_int (\<bar>n\<bar> * 2 ^ nat j)" .
  have N: "rhe (m / pow2 (e - ?p + 1)) = \<bar>n\<bar> * 2 ^ nat j" by (simp only: q rhe_of_int)
  have r: "of_int (\<bar>n\<bar> * 2 ^ nat j) * pow2 (e - ?p + 1) = m"
    using q by (simp add: field_simps)
  have "pow2 (?p + k) \<le> pow2 (emax f + 1)" using k2 by (intro pow2_mono) simp
  then have no_ovf: "\<not> pow2 (emax f + 1) \<le> m" using m_lt by simp
  have Nz: "\<bar>n\<bar> * 2 ^ nat j \<noteq> 0" using n0 by simp
  have "fround f ?x = Fin (if ?x < 0 then - m else m)"
    unfolding fround_def Let_def m_def [symmetric] e_def [symmetric] N r
    using no_ovf Nz x0 by simp
  also have "(if ?x < 0 then - m else m) = ?x" by (simp add: m_def)
  finally show ?thesis .
qed

lemma fround_int:
  assumes "\<bar>n\<bar> < 2 ^ prec f"
  shows "fround f (of_int n) = Fin (of_int n)"
proof (cases "n = 0")
  case True then show ?thesis by (simp add: fround_def)
next
  case False
  have "fround f (of_int n * pow2 0) = Fin (of_int n * pow2 0)"
    using False assms by (rule fround_exact) (cases f; simp)+
  then show ?thesis by (simp add: pow2_def)
qed

lemma fround_half:
  assumes "\<bar>n\<bar> < 2 ^ prec f"
  shows "fround f (of_int n / 2) = Fin (of_int n / 2)"
proof (cases "n = 0")
  case True then show ?thesis by (simp add: fround_def)
next
  case False
  have "fround f (of_int n * pow2 (- 1)) = Fin (of_int n * pow2 (- 1))"
    using False assms by (rule fround_exact) (cases f; simp)+
  then show ?thesis by (simp add: pow2_def)
qed

lemma fround_rel:
  assumes x0: "x \<noteq> 0" and lo: "pow2 (emin f) \<le> \<bar>x\<bar>"
  obtains (inf) "fround f x = signed_inf (x < 0)"
    | (fin) y where "fround f x = Fin y" "\<bar>y - x\<bar> \<le> \<bar>x\<bar> / 2 ^ prec f" "y \<noteq> 0" "(y < 0) = (x < 0)"
proof -
  let ?p = "int (prec f)"
  define m where "m = \<bar>x\<bar>"
  have m_pos: "0 < m" using x0 by (simp add: m_def)
  define e where "e = max (ilog2 m) (emin f)"
  have pe: "pow2 e \<le> m"
    using ilog2_le [OF m_pos] lo by (simp add: e_def m_def max_def)
  define u where "u = pow2 (e - ?p + 1)"
  have u_pos: "0 < u" by (simp add: u_def)
  have u_eq: "u = pow2 e * 2 / 2 ^ prec f"
  proof -
    have "u = pow2 (e + 1 - ?p)" by (simp add: u_def algebra_simps)
    also have "\<dots> = pow2 (e + 1) / pow2 ?p" by (rule pow2_diff)
    also have "pow2 (e + 1) = pow2 e * 2" using pow2_add [of e 1] by (simp add: pow2_def)
    also have "pow2 ?p = 2 ^ prec f" by (simp add: pow2_def)
    finally show ?thesis .
  qed
  define n where "n = rhe (m / u)"
  define r where "r = of_int n * u"
  have "\<bar>of_int n - m / u\<bar> \<le> 1 / 2" unfolding n_def by (rule rhe_close)
  then have "\<bar>of_int n - m / u\<bar> * u \<le> 1 / 2 * u" using u_pos by (simp only: mult_le_cancel_right_pos)
  moreover have "\<bar>of_int n - m / u\<bar> * u = \<bar>r - m\<bar>"
  proof -
    have "\<bar>of_int n - m / u\<bar> * u = \<bar>(of_int n - m / u) * u\<bar>" using u_pos by (simp add: abs_mult)
    also have "(of_int n - m / u) * u = r - m" using u_pos by (simp add: r_def algebra_simps)
    finally show ?thesis .
  qed
  ultimately have "\<bar>r - m\<bar> \<le> u / 2" by simp
  also have "u / 2 = pow2 e / 2 ^ prec f" by (simp add: u_eq)
  also have "\<dots> \<le> m / 2 ^ prec f" using pe by (simp add: divide_right_mono)
  finally have err: "\<bar>r - m\<bar> \<le> m / 2 ^ prec f" .
  have "(2::rat) ^ prec f \<ge> 2" by (cases f) simp_all
  then have "m / 2 ^ prec f \<le> m / 2" using m_pos by (intro divide_left_mono) simp_all
  with err have "\<bar>r - m\<bar> \<le> m / 2" by (rule order_trans)
  then have r_pos: "0 < r" using m_pos by linarith
  then have n0: "n \<noteq> 0" by (auto simp: r_def)
  have fr: "fround f x = (if pow2 (emax f + 1) \<le> r then signed_inf (x < 0)
                          else Fin (if x < 0 then - r else r))"
    using x0 n0 unfolding fround_def Let_def m_def [symmetric] e_def [symmetric] u_def [symmetric]
      n_def [symmetric] r_def [symmetric] by simp
  show ?thesis
  proof (cases "pow2 (emax f + 1) \<le> r")
    case True
    then show ?thesis using fr inf by simp
  next
    case False
    let ?y = "if x < 0 then - r else r"
    have "fround f x = Fin ?y" using fr False by simp
    moreover have "\<bar>?y - x\<bar> = \<bar>r - m\<bar>" by (auto simp: m_def)
    moreover have "?y \<noteq> 0" using r_pos by simp
    moreover have "(?y < 0) = (x < 0)" using r_pos by simp
    ultimately show ?thesis using err fin [of ?y] by (simp add: m_def)
  qed
qed

lemma fround_numeral:
  "(numeral w :: int) < 2 ^ prec f \<Longrightarrow> fround f (numeral w) = Fin (numeral w)"
  using fround_int [of "numeral w" f] by simp

lemma fround_numeral_half:
  "(numeral w :: int) < 2 ^ prec f \<Longrightarrow> fround f (numeral w / 2) = Fin (numeral w / 2)"
  using fround_half [of "numeral w" f] by simp

lemma fround_one: "fround f 1 = Fin 1"
  using fround_int [of 1 f] by (cases f) simp_all

lemma fround_one_half: "fround f (1 / 2) = Fin (1 / 2)"
  using fround_half [of 1 f] by (cases f) simp_all

lemma fround_zero: "fround f 0 = Fin 0"
  by (simp add: fround_def)

section \<open>Lemmas on integer ranges and casts\<close>

lemma bits_pos: "0 < bits d"
  by (cases d) simp_all

lemma wrap_range: "in_range d (wrap d x)"
proof -
  have p: "(0::int) < 2 ^ bits d" by simp
  have h: "(2::int) ^ bits d = 2 * 2 ^ (bits d - 1)"
    using bits_pos [of d] by (cases "bits d") simp_all
  have a: "0 \<le> (x + 2 ^ (bits d - 1)) mod 2 ^ bits d" "(x + 2 ^ (bits d - 1)) mod 2 ^ bits d < 2 ^ bits d"
    "0 \<le> x mod 2 ^ bits d" "x mod 2 ^ bits d < 2 ^ bits d"
    using p by simp_all
  show ?thesis
    using a h by (auto simp: in_range_def wrap_def iinfo_min_def iinfo_max_def)
qed

lemma wrap_id: "in_range d x \<Longrightarrow> wrap d x = x"
proof -
  assume r: "in_range d x"
  have h: "(2::int) ^ bits d = 2 * 2 ^ (bits d - 1)"
    using bits_pos [of d] by (cases "bits d") simp_all
  show ?thesis
  proof (cases "is_signed d")
    case True
    then have "0 \<le> x + 2 ^ (bits d - 1)" "x + 2 ^ (bits d - 1) < 2 ^ bits d"
      using r h by (simp_all add: in_range_def iinfo_min_def iinfo_max_def)
    then have "(x + 2 ^ (bits d - 1)) mod 2 ^ bits d = x + 2 ^ (bits d - 1)" by simp
    then show ?thesis using True by (simp add: wrap_def)
  next
    case False
    then have "0 \<le> x" "x < 2 ^ bits d"
      using r by (simp_all add: in_range_def iinfo_min_def iinfo_max_def)
    then show ?thesis using False by (simp add: wrap_def)
  qed
qed

lemma zero_in_range: "in_range d 0"
  by (simp add: in_range_def iinfo_min_def iinfo_max_def)

lemma cast_f2i_range: "in_range d (cast_f2i ub d x)"
  using wrap_range [of d "ub d x"] zero_in_range [of d]
  by (cases x) (auto simp: cast_f2i_def Let_def in_range_def)

lemma trunc_of_int [simp]: "trunc (of_int c) = c"
  by (simp add: trunc_def)

lemma cast_f2i_int: "in_range d c \<Longrightarrow> cast_f2i ub d (Fin (of_int c)) = c"
  by (simp add: cast_f2i_def in_range_def)

section \<open>Lemmas on broadcasting\<close>

lemma bshape_rev_Nil2: "bshape_rev xs [] = Some xs"
  by (cases xs) simp_all

lemma broadcast_shapes_scalar: "broadcast_shapes sh [] = Some sh"
  by (simp add: broadcast_shapes_def bshape_rev_Nil2)

lemma bshape_rev_same: "bshape_rev xs xs = Some xs"
  by (induction xs) simp_all

lemma broadcast_shapes_same: "broadcast_shapes sh sh = Some sh"
  by (simp add: broadcast_shapes_def bshape_rev_same)

lemma concat_replicate_replicate: "concat (replicate n (replicate k z)) = replicate (n * k) z"
  by (induction n) (simp_all add: replicate_add)

lemma bcast_ones: "bcast (replicate (length t) 1) t [z] = replicate (prod_list t) z"
proof (induction t)
  case Nil
  show ?case by simp
next
  case (Cons n t)
  show ?case
  proof (cases "n = 1")
    case True
    then show ?thesis using Cons by simp
  next
    case False
    then show ?thesis using Cons by (simp add: concat_replicate_replicate)
  qed
qed

lemma broadcast_to_scalar: "broadcast_to [] sh [z] = replicate (prod_list sh) z"
  using bcast_ones [of sh z] by (simp add: broadcast_to_def)

lemma broadcast_to_same: "broadcast_to sh sh xs = xs"
  by (simp add: broadcast_to_def)

lemma map2_scalar:
  "length xs = prod_list sh \<Longrightarrow>
   map2 f (broadcast_to sh sh xs) (broadcast_to [] sh [z]) = map (\<lambda>x. f x z) xs"
  by (simp add: broadcast_to_same broadcast_to_scalar zip_replicate2)

section \<open>Lemmas on the lookup\<close>

lemma stored_cache [simp]:
  "stored_value (cache_attr n item v) it = (if it = item then v else stored_value n it)"
  by (simp add: stored_value_def cache_attr_def)

lemma cache_fields [simp]:
  "input_tensors (cache_attr n item v) = input_tensors n"
  "out_tensor (cache_attr n item v) = out_tensor n"
  by (simp_all add: cache_attr_def)

lemma doi_cache:
  "stored_value n item = None \<Longrightarrow> declared_or_input n item = v \<Longrightarrow>
   declared_or_input (cache_attr n item v) it = declared_or_input n it"
  unfolding declared_or_input_def
  by (cases "it = item") (auto split: option.splits if_splits)

lemma from_inputs_doi:
  "stored_value n item = None \<Longrightarrow> declared_or_input n item = Some v \<Longrightarrow>
   from_inputs item n = (Inr (Some v), cache_attr n item (Some v))"
  unfolding declared_or_input_def from_inputs_def Let_def
  by (simp split: option.splits if_splits)

lemma getattr_declared_or_input:
  "declared_or_input n item = Some v \<Longrightarrow>
   getattr E item n = (Inr (Some v), if stored_value n item = None then cache_attr n item (Some v) else n)"
proof (cases "stored_value n item")
  case None
  assume "declared_or_input n item = Some v"
  with None have "from_inputs item n = (Inr (Some v), cache_attr n item (Some v))"
    by (rule from_inputs_doi)
  with None show ?thesis
    by (subst getattr.simps) simp
next
  case (Some a)
  assume "declared_or_input n item = Some v"
  with Some have "a = v" by (simp add: declared_or_input_def)
  with Some show ?thesis
    by (subst getattr.simps) simp
qed

lemma A_not_zp: "''A'' \<notin> set zero_point_names"
  by (simp add: zero_point_names_def)

lemma resolve_A: "resolve n ''A'' = declared_or_input n ''A''"
  by (simp add: resolve_def A_not_zp split: option.splits)

lemma same_view_refl: "same_view n n"
  by (simp add: same_view_def)

lemma same_view_trans: "same_view a b \<Longrightarrow> same_view b c \<Longrightarrow> same_view a c"
  by (simp add: same_view_def)

lemma same_view_cache_doi:
  assumes "stored_value n item = None" "declared_or_input n item = v"
  shows "same_view n (cache_attr n item v)"
proof -
  have h: "declared_or_input (cache_attr n item v) = declared_or_input n"
    using assms by (intro ext doi_cache)
  show ?thesis unfolding same_view_def resolve_def h by simp
qed

lemma getattr_doi_view:
  assumes "declared_or_input n item = Some v"
  shows "fst (getattr E item n) = Inr (Some v)" "same_view n (snd (getattr E item n))"
  using assms same_view_cache_doi [of n item "Some v"]
  by (simp_all add: getattr_declared_or_input same_view_refl)


lemma zp_no_scale: "item \<in> set zero_point_names \<Longrightarrow> \<not> str_contains ''scale'' item"
  by (auto simp: zero_point_names_def)

lemma zp_in_input_names: "item \<in> set zero_point_names \<Longrightarrow> item \<in> set input_names"
  by (auto simp: zero_point_names_def input_names_def)

lemma doi_None_stored: "declared_or_input n item = None \<Longrightarrow> stored_value n item = None"
  by (simp add: declared_or_input_def split: option.splits)

lemma from_inputs_none:
  assumes "declared_or_input n item = None" "\<not> str_contains ''scale'' item"
  shows "from_inputs item n =
          (Inr None, if item \<in> set input_names \<and> index_of input_names item < length (input_tensors n)
                     then cache_attr n item None else n)"
  using assms unfolding declared_or_input_def from_inputs_def Let_def
  by (simp split: option.splits if_splits) blast

lemma same_view_cache_default:
  assumes "declared_or_input m item = None" "item \<in> set zero_point_names"
    "declared_or_input m ''A'' = Some (PTensor a)"
  shows "same_view m (cache_attr m item (Some (PTensor (np_zero (dtype_of a)))))"
proof -
  let ?m' = "cache_attr m item (Some (PTensor (np_zero (dtype_of a))))"
  have ne: "item \<noteq> ''A''" using assms(2) A_not_zp by auto
  have other: "declared_or_input ?m' it = declared_or_input m it" if "it \<noteq> item" for it
    using that by (simp add: declared_or_input_def split: option.splits)
  have self: "declared_or_input ?m' item = Some (PTensor (np_zero (dtype_of a)))"
    by (simp add: declared_or_input_def)
  have "resolve ?m' it = resolve m it" for it
  proof (cases "it = item")
    case True
    then show ?thesis using assms self by (simp add: resolve_def)
  next
    case False
    have oA: "declared_or_input ?m' ''A'' = declared_or_input m ''A''"
      using other [of "''A''"] ne by simp
    show ?thesis unfolding resolve_def other [OF False] oA ..
  qed
  then show ?thesis by (simp add: same_view_def)
qed


lemma getattr_default:
  assumes zp: "item \<in> set zero_point_names"
    and none: "declared_or_input n item = None"
    and A: "declared_or_input n ''A'' = Some (PTensor a)"
  shows "fst (getattr E item n) = Inr (Some (PTensor (np_zero (dtype_of a))))"
    and "same_view n (snd (getattr E item n))"
proof -
  let ?z = "Some (PTensor (np_zero (dtype_of a)))"
  define n1 where "n1 = (if item \<in> set input_names \<and> index_of input_names item < length (input_tensors n)
                         then cache_attr n item None else n)"
  have st: "stored_value n item = None" using none by (rule doi_None_stored)
  have fi: "from_inputs item n = (Inr None, n1)"
    unfolding n1_def using none zp_no_scale [OF zp] by (rule from_inputs_none)
  have d1: "declared_or_input n1 = declared_or_input n"
    unfolding n1_def using st none by (auto intro: doi_cache)
  have sv1: "same_view n n1"
    unfolding same_view_def resolve_def d1 by (simp add: n1_def)
  have A1: "declared_or_input n1 ''A'' = Some (PTensor a)" using A d1 by simp
  define n2 where "n2 = (if stored_value n1 ''A'' = None then cache_attr n1 ''A'' (Some (PTensor a)) else n1)"
  have g1: "getattr E ''A'' n1 = (Inr (Some (PTensor a)), n2)"
    unfolding n2_def using A1 by (rule getattr_declared_or_input)
  have d2: "declared_or_input n2 = declared_or_input n1"
    unfolding n2_def using A1 by (auto intro: doi_cache)
  have st2: "stored_value n2 ''A'' \<noteq> None" by (simp add: n2_def)
  have A2: "declared_or_input n2 ''A'' = Some (PTensor a)" using A1 d2 by simp
  have g2: "getattr E ''A'' n2 = (Inr (Some (PTensor a)), n2)"
    using getattr_declared_or_input [OF A2, of E] st2 by simp
  have res: "getattr E item n = (Inr ?z, cache_attr n2 item ?z)"
    by (subst getattr.simps) (simp add: st fi zp g1 g2 Let_def)
  have sv2: "same_view n1 n2"
    unfolding same_view_def resolve_def d2 by (simp add: n2_def)
  have none2: "declared_or_input n2 item = None" using none d1 d2 by simp
  have sv3: "same_view n2 (cache_attr n2 item ?z)"
    using none2 zp A2 by (rule same_view_cache_default)
  show "fst (getattr E item n) = Inr ?z" by (simp add: res)
  show "same_view n (snd (getattr E item n))"
    using sv1 sv2 sv3 by (simp add: res) (blast intro: same_view_trans)
qed

lemma getattr_resolve:
  assumes "resolve n item = Some v"
  shows "fst (getattr E item n) = Inr (Some v)" and "same_view n (snd (getattr E item n))"
proof -
  have "fst (getattr E item n) = Inr (Some v) \<and> same_view n (snd (getattr E item n))"
  proof (cases "declared_or_input n item")
    case (Some w)
    with assms have "w = v" by (simp add: resolve_def)
    with Some show ?thesis using getattr_doi_view [of n item v E] by simp
  next
    case None
    with assms obtain a where zp: "item \<in> set zero_point_names"
      and A: "declared_or_input n ''A'' = Some (PTensor a)"
      and v: "v = PTensor (np_zero (dtype_of a))"
      by (auto simp: resolve_def split: if_splits option.splits pyval.splits)
    show ?thesis using getattr_default [OF zp None A, of E] v by simp
  qed
  then show "fst (getattr E item n) = Inr (Some v)" and "same_view n (snd (getattr E item n))"
    by simp_all
qed

section \<open>Lemmas on the inference step\<close>

lemma same_view_resolve: "same_view n n' \<Longrightarrow> resolve n' item = resolve n item"
  by (simp add: same_view_def)

lemma getattr_resolve_ex:
  assumes "same_view n0 n" "resolve n0 item = Some v"
  obtains n' where "getattr E item n = (Inr (Some v), n')" "same_view n0 n'"
proof -
  have r: "resolve n item = Some v" using assms by (simp add: same_view_def)
  have "getattr E item n = (fst (getattr E item n), snd (getattr E item n))" by simp
  then have "getattr E item n = (Inr (Some v), snd (getattr E item n))"
    using getattr_resolve(1) [OF r, of E] by simp
  moreover have "same_view n0 (snd (getattr E item n))"
    using assms(1) getattr_resolve(2) [OF r, of E] by (rule same_view_trans)
  ultimately show ?thesis using that by blast
qed

lemma dequantize_runs:
  assumes sv: "same_view n0 n"
    and x: "resolve n0 x = Some xv" and z: "resolve n0 zp = Some zv" and s: "resolve n0 sc = Some scv"
  obtains n' where "dequantize E x zp sc n = (dequantize_value (cast_ub E) (Some xv) (Some zv) (Some scv), n')"
    "same_view n0 n'"
proof -
  obtain n1 where g1: "getattr E x n = (Inr (Some xv), n1)" and v1: "same_view n0 n1"
    using sv x by (rule getattr_resolve_ex)
  obtain n2 where g2: "getattr E zp n1 = (Inr (Some zv), n2)" and v2: "same_view n0 n2"
    using v1 z by (rule getattr_resolve_ex)
  obtain n3 where g3: "getattr E sc n2 = (Inr (Some scv), n3)" and v3: "same_view n0 n3"
    using v2 s by (rule getattr_resolve_ex)
  have "\<exists>n'. dequantize E x zp sc n = (dequantize_value (cast_ub E) (Some xv) (Some zv) (Some scv), n')
          \<and> same_view n0 n'"
    using v1 v2 v3
    by (auto simp: dequantize_def dequantize_value_def bindM_def bindE_def liftE_def g1 g2 g3
        split: sum.splits)
  then show ?thesis using that by blast
qed


lemma requantize_runs:
  assumes sv: "same_view n0 n"
    and z: "resolve n0 ''C_zero_point'' = Some zv" and s: "resolve n0 ''C_scale'' = Some scv"
  obtains n' where "requantize E fy n = (requantize_value (cast_ub E) fy (Some zv) (Some scv), n')"
    "same_view n0 n'"
proof -
  obtain n1 where g1: "getattr E ''C_zero_point'' n = (Inr (Some zv), n1)" and v1: "same_view n0 n1"
    using sv z by (rule getattr_resolve_ex)
  obtain n2 where g2: "getattr E ''C_zero_point'' n1 = (Inr (Some zv), n2)" and v2: "same_view n0 n2"
    using v1 z by (rule getattr_resolve_ex)
  obtain n3 where g3: "getattr E ''C_scale'' n2 = (Inr (Some scv), n3)" and v3: "same_view n0 n3"
    using v2 s by (rule getattr_resolve_ex)
  obtain n4 where g4: "getattr E ''C_zero_point'' n3 = (Inr (Some zv), n4)" and v4: "same_view n0 n4"
    using v3 z by (rule getattr_resolve_ex)
  obtain n5 where g5: "getattr E ''C_zero_point'' n4 = (Inr (Some zv), n5)" and v5: "same_view n0 n5"
    using v4 z by (rule getattr_resolve_ex)
  have "\<exists>n'. requantize E fy n = (requantize_value (cast_ub E) fy (Some zv) (Some scv), n')
          \<and> same_view n0 n'"
  proof (cases zv)
    case (PStr str)
    then show ?thesis using v1
      by (simp add: requantize_def requantize_value_def bindM_def bindE_def liftE_def g1)
  next
    case (PTensor zt)
    show ?thesis
    proof (cases "np_iinfo (dtype_of zt)")
      case (Inl e)
      then show ?thesis using v1 PTensor
        by (simp add: requantize_def requantize_value_def bindM_def bindE_def liftE_def g1)
    next
      case (Inr d)
      then show ?thesis using v1 v2 v3 v4 v5 PTensor
        by (auto simp: requantize_def requantize_value_def bindM_def bindE_def liftE_def returnM_def
            Let_def g1 g2 g3 g4 g5 split: sum.splits)
    qed
  qed
  then show ?thesis using that by blast
qed


lemma infer_shape_runs:
  assumes base: "op_infer_shape E n = Inr n0" and len: "7 \<le> length (input_tensors n0)"
    and all: "\<forall>item \<in> set input_names. resolve n0 item \<noteq> None"
  obtains n' where "same_view n0 n'"
    and "infer_shape E n = (case infer_value (cast_ub E) (resolve n0) of
                              Inl e \<Rightarrow> (Inl e, n')
                            | Inr t \<Rightarrow> (Inr (), n'\<lparr>out_tensor := Some t\<rparr>))"
proof -
  from all obtain av azv asv bv bzv bsv czv csv where
    r: "resolve n0 ''A'' = Some av" "resolve n0 ''A_zero_point'' = Some azv"
       "resolve n0 ''A_scale'' = Some asv" "resolve n0 ''B'' = Some bv"
       "resolve n0 ''B_zero_point'' = Some bzv" "resolve n0 ''B_scale'' = Some bsv"
       "resolve n0 ''C_zero_point'' = Some czv" "resolve n0 ''C_scale'' = Some csv"
    unfolding input_names_def by auto
  let ?ub = "cast_ub E"
  obtain n1 where d1: "dequantize E ''A'' ''A_zero_point'' ''A_scale'' n0
        = (dequantize_value ?ub (Some av) (Some azv) (Some asv), n1)" and v1: "same_view n0 n1"
    using same_view_refl r(1,2,3) by (rule dequantize_runs)
  obtain n2 where d2: "dequantize E ''B'' ''B_zero_point'' ''B_scale'' n1
        = (dequantize_value ?ub (Some bv) (Some bzv) (Some bsv), n2)" and v2: "same_view n0 n2"
    using v1 r(4,5,6) by (rule dequantize_runs)
  have rq: "\<exists>n3. requantize E fy n2 = (requantize_value ?ub fy (Some czv) (Some csv), n3) \<and> same_view n0 n3" for fy
    using requantize_runs [OF v2 r(7,8), of E fy] by metis
  have "\<exists>n'. same_view n0 n' \<and>
          infer_shape E n = (case infer_value ?ub (resolve n0) of
                              Inl e \<Rightarrow> (Inl e, n')
                            | Inr t \<Rightarrow> (Inr (), n'\<lparr>out_tensor := Some t\<rparr>))"
  proof (cases "dequantize_value ?ub (Some av) (Some azv) (Some asv)")
    case (Inl e)
    then show ?thesis using v1 base len
      by (auto simp: infer_shape_def infer_value_def bindM_def bindE_def d1 r)
  next
    case fa: (Inr fa)
    show ?thesis
    proof (cases "dequantize_value ?ub (Some bv) (Some bzv) (Some bsv)")
      case (Inl e)
      then show ?thesis using v2 base len fa
        by (auto simp: infer_shape_def infer_value_def bindM_def bindE_def d1 d2 r)
    next
      case fb: (Inr fb)
      show ?thesis
      proof (cases "np_add fa fb")
        case (Inl e)
        then show ?thesis using v2 base len fa fb
          by (auto simp: infer_shape_def infer_value_def bindM_def bindE_def liftE_def d1 d2 r)
      next
        case fy: (Inr fy)
        from rq [of fy] obtain n3 where
          q: "requantize E fy n2 = (requantize_value ?ub fy (Some czv) (Some csv), n3)"
          and v3: "same_view n0 n3" by blast
        show ?thesis using v3 base len fa fb fy
          by (auto simp: infer_shape_def infer_value_def bindM_def bindE_def liftE_def
              set_out_tensor_def d1 d2 q r split: sum.splits)
      qed
    qed
  qed
  then show ?thesis using that by blast
qed

lemma doi_out_tensor: "declared_or_input (m\<lparr>out_tensor := x\<rparr>) = declared_or_input m"
proof -
  have h: "input_tensors (m\<lparr>out_tensor := x\<rparr>) = input_tensors m"
    "node_attr (m\<lparr>out_tensor := x\<rparr>) = node_attr m" by simp_all
  show ?thesis unfolding declared_or_input_def stored_value_def h ..
qed

lemma resolve_out_tensor [simp]: "resolve (m\<lparr>out_tensor := x\<rparr>) = resolve m"
  unfolding resolve_def doi_out_tensor ..

subsection \<open>The scenario of the specification, computed\<close>

lemma resolve_example:
  "resolve qadd_example ''A'' = Some (PTensor (ITensor UInt8 [2] [10, 20]))"
  "resolve qadd_example ''A_scale'' = Some (PTensor (FTensor Float32 [] [Fin (1 / 2)]))"
  "resolve qadd_example ''A_zero_point'' = Some (PTensor (ITensor UInt8 [] [0]))"
  "resolve qadd_example ''B'' = Some (PTensor (ITensor UInt8 [2] [5, 5]))"
  "resolve qadd_example ''B_scale'' = Some (PTensor (FTensor Float32 [] [Fin (1 / 2)]))"
  "resolve qadd_example ''B_zero_point'' = Some (PTensor (ITensor UInt8 [] [0]))"
  "resolve qadd_example ''C_scale'' = Some (PTensor (FTensor Float32 [] [Fin 1]))"
  "resolve qadd_example ''C_zero_point'' = Some (PTensor (ITensor UInt8 [] [0]))"
  by (simp_all add: resolve_def declared_or_input_def stored_value_def qadd_example_def named_store_def
      input_names_def zero_point_names_def)

lemma deq_A:
  "dequantize_value ub (Some (PTensor (ITensor UInt8 [2] [10, 20]))) (Some (PTensor (ITensor UInt8 [] [0])))
      (Some (PTensor (FTensor Float32 [] [Fin (1 / 2)])))
   = Inr (FTensor Float64 [2] [Fin 5, Fin 10])"
  by (simp add: dequantize_value_def bindE_def np_subtract_def np_multiply_def np_binop_def
      broadcast_shapes_scalar map2_scalar promote_int_def promote_int_float_def wrap_def
      f_of_int_def fmul_def fround_numeral fround_one_half)

lemma deq_B:
  "dequantize_value ub (Some (PTensor (ITensor UInt8 [2] [5, 5]))) (Some (PTensor (ITensor UInt8 [] [0])))
      (Some (PTensor (FTensor Float32 [] [Fin (1 / 2)])))
   = Inr (FTensor Float64 [2] [Fin (5 / 2), Fin (5 / 2)])"
  by (simp add: dequantize_value_def bindE_def np_subtract_def np_multiply_def np_binop_def
      broadcast_shapes_scalar map2_scalar promote_int_def promote_int_float_def wrap_def
      f_of_int_def fmul_def fround_numeral fround_one_half fround_numeral_half)

lemma add_AB:
  "np_add (FTensor Float64 [2] [Fin 5, Fin 10]) (FTensor Float64 [2] [Fin (5 / 2), Fin (5 / 2)])
   = Inr (FTensor Float64 [2] [Fin (15 / 2), Fin (25 / 2)])"
  by (simp add: np_add_def np_binop_def broadcast_shapes_same broadcast_to_same fadd_def
      fround_numeral_half)

lemma frint_example: "frint (Fin (15 / 2)) = Fin 8" "frint (Fin (25 / 2)) = Fin 12"
proof -
  have "\<lfloor>15 / 2 :: rat\<rfloor> = 7" "\<lfloor>25 / 2 :: rat\<rfloor> = 12" by (simp_all add: floor_eq_iff)
  then show "frint (Fin (15 / 2)) = Fin 8" "frint (Fin (25 / 2)) = Fin 12"
    by (simp_all add: rhe_def Let_def)
qed

lemma req_Y:
  "requantize_value ub (FTensor Float64 [2] [Fin (15 / 2), Fin (25 / 2)])
      (Some (PTensor (ITensor UInt8 [] [0]))) (Some (PTensor (FTensor Float32 [] [Fin 1])))
   = Inr (ITensor UInt8 [2] [8, 12])"
proof -
  have q: "np_true_divide (FTensor Float64 [2] [Fin (15 / 2), Fin (25 / 2)]) (FTensor Float32 [] [Fin 1])
      = Inr (FTensor Float64 [2] [Fin (15 / 2), Fin (25 / 2)])"
    by (simp add: np_true_divide_def broadcast_shapes_scalar map2_scalar fdiv_def fround_one
        fround_numeral_half)
  have r: "np_around (FTensor Float64 [2] [Fin (15 / 2), Fin (25 / 2)]) = FTensor Float64 [2] [Fin 8, Fin 12]"
    using frint_example by simp
  have a: "np_add (FTensor Float64 [2] [Fin 8, Fin 12]) (ITensor UInt8 [] [0])
      = Inr (FTensor Float64 [2] [Fin 8, Fin 12])"
    by (simp add: np_add_def np_binop_def broadcast_shapes_scalar map2_scalar promote_int_float_def
        f_of_int_def fadd_def fround_numeral fround_zero)
  have c: "np_clip (FTensor Float64 [2] [Fin 8, Fin 12]) (iinfo_min UInt8) (iinfo_max UInt8)
      = FTensor Float64 [2] [Fin 8, Fin 12]"
    by (simp add: iinfo_min_def iinfo_max_def f_of_int_def fround_numeral fround_zero
        npy_clip_def npy_min_def npy_max_def fless_def)
  have t: "np_astype ub (IntT UInt8) (FTensor Float64 [2] [Fin 8, Fin 12]) = ITensor UInt8 [2] [8, 12]"
    by (simp add: cast_f2i_def trunc_def iinfo_min_def iinfo_max_def)
  show ?thesis
    by (simp add: requantize_value_def bindE_def q r a c t
        del: np_around.simps np_clip.simps np_astype.simps)
qed

lemma infer_value_example:
  "infer_value ub (resolve qadd_example) = Inr (ITensor UInt8 [2] [8, 12])"
  by (simp add: infer_value_def bindE_def resolve_example deq_A deq_B add_AB req_Y)

lemma infer_shape_example:
  assumes "op_infer_shape E qadd_example = Inr qadd_example"
  shows "fst (infer_shape E qadd_example) = Inr ()"
    and "out_tensor (snd (infer_shape E qadd_example)) = Some (ITensor UInt8 [2] [8, 12])"
proof -
  have len: "7 \<le> length (input_tensors qadd_example)" by (simp add: qadd_example_def)
  have all: "\<forall>item \<in> set input_names. resolve qadd_example item \<noteq> None"
    by (simp add: input_names_def resolve_example)
  obtain n' where "infer_shape E qadd_example
      = (case infer_value (cast_ub E) (resolve qadd_example) of
           Inl e \<Rightarrow> (Inl e, n') | Inr t \<Rightarrow> (Inr (), n'\<lparr>out_tensor := Some t\<rparr>))"
    using assms len all by (rule infer_shape_runs)
  then have "infer_shape E qadd_example = (Inr (), n'\<lparr>out_tensor := Some (ITensor UInt8 [2] [8, 12])\<rparr>)"
    by (simp add: infer_value_example)
  then show "fst (infer_shape E qadd_example) = Inr ()"
    and "out_tensor (snd (infer_shape E qadd_example)) = Some (ITensor UInt8 [2] [8, 12])"
    by simp_all
qed

lemma astype_clip_range:
  "\<exists>sh xs. np_astype ub (IntT T) (np_clip t lo hi) = ITensor T sh xs \<and> (\<forall>x \<in> set xs. in_range T x)"
proof (cases t)
  case (ITensor d sh xs)
  then show ?thesis by (auto simp: wrap_range)
next
  case (FTensor f sh xs)
  then show ?thesis by (auto simp: cast_f2i_range)
qed

lemma requantize_example:
  "fst (requantize E (FTensor Float64 [2] [Fin (15 / 2), Fin (25 / 2)]) qadd_example)
     = Inr (ITensor UInt8 [2] [8, 12])"
proof -
  obtain n' where "requantize E (FTensor Float64 [2] [Fin (15 / 2), Fin (25 / 2)]) qadd_example
     = (requantize_value (cast_ub E) (FTensor Float64 [2] [Fin (15 / 2), Fin (25 / 2)])
          (Some (PTensor (ITensor UInt8 [] [0]))) (Some (PTensor (FTensor Float32 [] [Fin 1]))), n')"
    using same_view_refl resolve_example(8) resolve_example(7) by (rule requantize_runs)
  then show ?thesis by (simp add: req_Y)
qed

subsection \<open>Dequantization, elementwise\<close>

lemma promote_Int32_cases:
  assumes "promote_int Int32 Tz = IntT dp"
  shows "dp = Int32 \<or> dp = Int64"
  using assms by (cases Tz) (auto simp: promote_int_def)

lemma promote_Int32_range:
  assumes "promote_int Int32 Tz = IntT dp" "in_range Tz z"
  shows "in_range dp z"
  using assms by (cases Tz) (auto simp: promote_int_def in_range_def iinfo_min_def iinfo_max_def)

lemma Int32_range_promoted:
  assumes "promote_int Int32 Tz = IntT dp" "in_range Int32 v"
  shows "in_range dp v"
  using promote_Int32_cases [OF assms(1)] assms(2)
  by (auto simp: in_range_def iinfo_min_def iinfo_max_def)

lemma map_wrap_id: "\<forall>v \<in> set xs. in_range d v \<Longrightarrow> map (wrap d) xs = xs"
  by (induction xs) (simp_all add: wrap_id)

lemma dequantize_value_scalar:
  assumes len: "length xs = prod_list sh"
    and pr: "promote_int Int32 Tz = IntT dp"
    and x32: "\<forall>v \<in> set xs. in_range Int32 v"
    and zr: "in_range Tz z"
    and diff: "\<forall>v \<in> set xs. in_range dp (v - z)"
  shows "dequantize_value ub (Some (PTensor (ITensor T sh xs))) (Some (PTensor (ITensor Tz [] [z])))
           (Some (PTensor (FTensor Float32 [] [s])))
         = Inr (FTensor Float64 sh (map (\<lambda>v. fmul Float64 (f_of_int Float64 (v - z)) (fconv Float64 s)) xs))"
proof -
  have a: "np_astype_int ub Int32 (ITensor T sh xs) = ITensor Int32 sh xs"
    using map_wrap_id [OF x32] by simp
  have xp: "\<forall>v \<in> set xs. in_range dp v"
    using x32 Int32_range_promoted [OF pr] by blast
  have ax: "as_ints dp (ITensor Int32 sh xs) = xs"
    using map_wrap_id [OF xp] by simp
  have az: "as_ints dp (ITensor Tz [] [z]) = [z]"
    using wrap_id [OF promote_Int32_range [OF pr zr]] by simp
  have "map (\<lambda>v. wrap dp (v - z)) xs = map (\<lambda>v. v - z) xs"
    using diff by (simp add: wrap_id)
  then have sub: "np_subtract (ITensor Int32 sh xs) (ITensor Tz [] [z]) = Inr (ITensor dp sh (map (\<lambda>v. v - z) xs))"
    using len by (simp add: np_subtract_def np_binop_def broadcast_shapes_scalar pr ax az map2_scalar
        del: as_ints.simps)
  have pf: "promote_int_float dp Float32 = Float64"
    using promote_Int32_cases [OF pr] by (auto simp: promote_int_float_def)
  have mul: "np_multiply (ITensor dp sh ds) (FTensor Float32 [] [s])
      = Inr (FTensor Float64 sh (map (\<lambda>d. fmul Float64 (f_of_int Float64 d) (fconv Float64 s)) ds))"
    if "length ds = prod_list sh" for ds
    using that by (simp add: np_multiply_def np_binop_def broadcast_shapes_scalar pf map2_scalar)
  show ?thesis
    using len by (simp add: dequantize_value_def bindE_def a sub mul comp_def del: np_astype_int.simps)
qed


lemma dequantize_runs_value:
  assumes "resolve n x = Some xv" "resolve n zp = Some zv" "resolve n sc = Some scv"
  shows "fst (dequantize E x zp sc n) = dequantize_value (cast_ub E) (Some xv) (Some zv) (Some scv)"
proof -
  obtain n' where "dequantize E x zp sc n = (dequantize_value (cast_ub E) (Some xv) (Some zv) (Some scv), n')"
    using same_view_refl assms by (rule dequantize_runs)
  then show ?thesis by simp
qed

lemma small_in_Int32:
  assumes "bits T \<le> 16" "in_range T v"
  shows "- 65536 \<le> v \<and> v \<le> 65536"
  using assms by (cases T) (auto simp: in_range_def iinfo_min_def iinfo_max_def)

section \<open>Properties of the attribute lookup\<close>

text \<open>
  C3. For each of the eight names that can come from a declared constant or from an input
  tensor: when the attribute store holds a value for the name, the lookup returns that
  value and leaves the node as it is, whatever the input tensors are; the input position
  plays no part.
\<close>

theorem declared_value_wins:
  assumes "item \<in> set input_names" and "stored_value n item = Some v"
  shows "getattr E item (n\<lparr>input_tensors := ins\<rparr>) = (Inr (Some v), n\<lparr>input_tensors := ins\<rparr>)"
proof -
  have "stored_value (n\<lparr>input_tensors := ins\<rparr>) item = Some v"
    using assms(2) by (simp add: stored_value_def)
  then show ?thesis
    by (subst getattr.simps) simp
qed

theorem declared_value_wins_witness:
  "''A_scale'' \<in> set input_names
   \<and> stored_value declared_scale_node ''A_scale'' = Some (PTensor (FTensor Float32 [] [Fin (1 / 4)]))
   \<and> getattr plain_env ''A_scale'' (declared_scale_node\<lparr>input_tensors := [None, None]\<rparr>)
       = (Inr (Some (PTensor (FTensor Float32 [] [Fin (1 / 4)]))),
          declared_scale_node\<lparr>input_tensors := [None, None]\<rparr>)"
proof -
  have a: "''A_scale'' \<in> set input_names" by (simp add: input_names_def)
  have b: "stored_value declared_scale_node ''A_scale'' = Some (PTensor (FTensor Float32 [] [Fin (1 / 4)]))"
    by (simp add: stored_value_def declared_scale_node_def)
  show ?thesis using a b declared_value_wins [OF a b] by simp
qed

text \<open>
  C4 as stated fails: for \<open>B_zero_point\<close>, absent from the store and from the inputs of a
  node whose \<open>A\<close> is uint8 and whose \<open>B\<close> is int8, the lookup yields the uint8 zero, not the
  zero of the type of \<open>B\<close>.
\<close>

theorem zero_point_default_counterexample:
  "fst (getattr plain_env ''B'' mixed_node) = Inr (Some (PTensor (ITensor Int8 [2] [- 5, 5])))
   \<and> fst (getattr plain_env ''B_zero_point'' mixed_node) = Inr (Some (PTensor (ITensor UInt8 [] [0])))"
proof -
  have "resolve mixed_node ''B'' = Some (PTensor (ITensor Int8 [2] [- 5, 5]))"
    by (simp add: resolve_def declared_or_input_def stored_value_def mixed_node_def named_store_def
        input_names_def zero_point_names_def)
  moreover have "resolve mixed_node ''B_zero_point'' = Some (PTensor (ITensor UInt8 [] [0]))"
    by (simp add: resolve_def declared_or_input_def stored_value_def mixed_node_def named_store_def
        input_names_def zero_point_names_def)
  ultimately show ?thesis by (simp add: getattr_resolve)
qed

text \<open>
  C4, amended. When a zero point is absent from the store and from its input position, and
  \<open>A\<close> resolves to a tensor, the lookup yields the zero of the element type of \<open>A\<close>, for
  each of the three zero points.
\<close>

theorem zero_point_default_of_A:
  assumes "item \<in> set zero_point_names"
    and "stored_value n item = None"
    and "length (input_tensors n) \<le> index_of input_names item
         \<or> input_tensors n ! index_of input_names item = None"
    and "resolve n ''A'' = Some (PTensor a)"
  shows "fst (getattr E item n) = Inr (Some (PTensor (np_zero (dtype_of a))))"
proof -
  have none: "declared_or_input n item = None"
    using assms(2,3) by (auto simp: declared_or_input_def)
  have A: "declared_or_input n ''A'' = Some (PTensor a)"
    using assms(4) by (simp add: resolve_A)
  show ?thesis using assms(1) none A by (rule getattr_default)
qed

theorem zero_point_default_of_A_witness:
  "''B_zero_point'' \<in> set zero_point_names
   \<and> stored_value mixed_node ''B_zero_point'' = None
   \<and> length (input_tensors mixed_node) \<le> index_of input_names ''B_zero_point''
   \<and> resolve mixed_node ''A'' = Some (PTensor (ITensor UInt8 [2] [10, 20]))
   \<and> fst (getattr plain_env ''B_zero_point'' mixed_node) = Inr (Some (PTensor (ITensor UInt8 [] [0])))"
proof -
  have a: "''B_zero_point'' \<in> set zero_point_names" by (simp add: zero_point_names_def)
  have b: "stored_value mixed_node ''B_zero_point'' = None"
    by (simp add: stored_value_def mixed_node_def named_store_def)
  have c: "length (input_tensors mixed_node) \<le> index_of input_names ''B_zero_point''"
    by (simp add: mixed_node_def input_names_def)
  have d: "resolve mixed_node ''A'' = Some (PTensor (ITensor UInt8 [2] [10, 20]))"
    by (simp add: resolve_def declared_or_input_def stored_value_def mixed_node_def named_store_def
        input_names_def zero_point_names_def)
  show ?thesis
    using a b c d zero_point_default_of_A [OF a b disjI1 [OF c] d, of plain_env] by simp
qed

section \<open>Properties of the inference step\<close>

text \<open>
  C5 as stated fails: on a node with five inputs the inference step does not return an
  error record; the \<open>assert\<close> raises an AssertionError that leaves \<open>infer_shape\<close>.
\<close>

theorem too_few_inputs_counterexample:
  "infer_shape plain_env short_node
     = (Inl (AssertionError ''Meets invalid inputs length of QLinearAddMs op (%s)'' (Some (PStr ''qadd''))),
        short_node)"
proof -
  have "declared_or_input short_node ''name'' = Some (PStr ''qadd'')"
    by (simp add: declared_or_input_def stored_value_def short_node_def named_store_def)
  then have "getattr plain_env ''name'' short_node = (Inr (Some (PStr ''qadd'')), short_node)"
    by (simp add: getattr_declared_or_input stored_value_def short_node_def named_store_def)
  then show ?thesis
    by (simp add: infer_shape_def plain_env_def invalid_inputs_length_def short_node_def)
qed

text \<open>
  C5, amended. When the base method has returned and the node has fewer than seven inputs,
  \<open>infer_shape\<close> raises an AssertionError with the invalid-inputs-length message and the
  node's name, and the node (its output tensor included) stays as the base method left it.
\<close>

theorem too_few_inputs_raise:
  assumes "op_infer_shape E n = Inr n0"
    and "length (input_tensors n0) < 7"
    and "stored_value n0 ''name'' = Some v"
  shows "infer_shape E n = (Inl (AssertionError invalid_inputs_length (Some v)), n0)"
proof -
  have "declared_or_input n0 ''name'' = Some v"
    using assms(3) by (simp add: declared_or_input_def)
  then have "getattr E ''name'' n0 = (Inr (Some v), n0)"
    using assms(3) by (simp add: getattr_declared_or_input)
  then show ?thesis
    using assms(1,2) by (simp add: infer_shape_def)
qed

theorem too_few_inputs_raise_witness:
  "op_infer_shape plain_env short_node = Inr short_node
   \<and> length (input_tensors short_node) < 7
   \<and> stored_value short_node ''name'' = Some (PStr ''qadd'')
   \<and> infer_shape plain_env short_node
       = (Inl (AssertionError invalid_inputs_length (Some (PStr ''qadd''))), short_node)"
proof -
  have a: "op_infer_shape plain_env short_node = Inr short_node" by (simp add: plain_env_def)
  have b: "length (input_tensors short_node) < 7" by (simp add: short_node_def)
  have c: "stored_value short_node ''name'' = Some (PStr ''qadd'')"
    by (simp add: stored_value_def short_node_def named_store_def)
  show ?thesis using a b c too_few_inputs_raise [OF a b c] by simp
qed

text \<open>
  C2. The scenario: with \<open>A = [10, 20]\<close>, \<open>B = [5, 5]\<close> (uint8, scales 0.5, zero points 0) and
  output scale 1.0, zero point 0, inference returns and sets the output tensor \<open>[8, 12]\<close> of
  type uint8 (7.5 and 12.5 round to the even neighbours 8 and 12), whatever the base lookup
  and the platform's undefined casts are, once the base \<open>infer_shape\<close> has returned.
\<close>

theorem scenario_output:
  assumes "op_infer_shape E qadd_example = Inr qadd_example"
  shows "fst (infer_shape E qadd_example) = Inr ()
         \<and> out_tensor (snd (infer_shape E qadd_example)) = Some (ITensor UInt8 [2] [8, 12])"
  using infer_shape_example [OF assms] by simp

theorem scenario_output_witness:
  "op_infer_shape plain_env qadd_example = Inr qadd_example
   \<and> fst (infer_shape plain_env qadd_example) = Inr ()
   \<and> out_tensor (snd (infer_shape plain_env qadd_example)) = Some (ITensor UInt8 [2] [8, 12])"
proof -
  have a: "op_infer_shape plain_env qadd_example = Inr qadd_example" by (simp add: plain_env_def)
  show ?thesis using a scenario_output [OF a] by simp
qed

text \<open>
  C9. When the base \<open>infer_shape\<close> does nothing and each of the eight names resolves (from
  the store, the inputs or the default), a run that returns leaves a node on which a second
  run returns too and sets the very same output tensor (shape, type and elements): the
  values cached by the first run are the values the second run reads.
\<close>

theorem infer_shape_idempotent:
  assumes base: "\<forall>m. op_infer_shape E m = Inr m"
    and all: "\<forall>item \<in> set input_names. resolve n item \<noteq> None"
    and first: "fst (infer_shape E n) = Inr ()"
  shows "fst (infer_shape E (snd (infer_shape E n))) = Inr ()
         \<and> out_tensor (snd (infer_shape E (snd (infer_shape E n)))) = out_tensor (snd (infer_shape E n))"
proof -
  have b: "op_infer_shape E m = Inr m" for m using base by simp
  have len: "7 \<le> length (input_tensors n)"
  proof (rule ccontr)
    assume "\<not> 7 \<le> length (input_tensors n)"
    then have "\<exists>e. fst (infer_shape E n) = Inl e"
      by (auto simp: infer_shape_def b split: prod.splits sum.splits)
    with first show False by simp
  qed
  obtain n' where v: "same_view n n'"
    and r: "infer_shape E n = (case infer_value (cast_ub E) (resolve n) of
               Inl e \<Rightarrow> (Inl e, n') | Inr t \<Rightarrow> (Inr (), n'\<lparr>out_tensor := Some t\<rparr>))"
    using b len all by (rule infer_shape_runs)
  from first r obtain t where iv: "infer_value (cast_ub E) (resolve n) = Inr t"
    by (cases "infer_value (cast_ub E) (resolve n)") simp_all
  define n1 where "n1 = n'\<lparr>out_tensor := Some t\<rparr>"
  have run1: "infer_shape E n = (Inr (), n1)" using r iv by (simp add: n1_def)
  have res1: "resolve n1 = resolve n" using v by (simp add: n1_def same_view_def fun_eq_iff)
  have in1: "input_tensors n1 = input_tensors n" using v by (simp add: n1_def same_view_def)
  have len1: "7 \<le> length (input_tensors n1)" using len in1 by simp
  have all1: "\<forall>item \<in> set input_names. resolve n1 item \<noteq> None" using all res1 by simp
  obtain n2 where "infer_shape E n1 = (case infer_value (cast_ub E) (resolve n1) of
               Inl e \<Rightarrow> (Inl e, n2) | Inr t \<Rightarrow> (Inr (), n2\<lparr>out_tensor := Some t\<rparr>))"
    using b len1 all1 by (rule infer_shape_runs)
  then have "infer_shape E n1 = (Inr (), n2\<lparr>out_tensor := Some t\<rparr>)"
    by (simp add: res1 iv)
  then show ?thesis by (simp add: run1 n1_def)
qed

theorem infer_shape_idempotent_witness:
  "(\<forall>m. op_infer_shape plain_env m = Inr m)
   \<and> list_all (\<lambda>item. resolve qadd_example item \<noteq> None) input_names
   \<and> fst (infer_shape plain_env qadd_example) = Inr ()
   \<and> fst (infer_shape plain_env (snd (infer_shape plain_env qadd_example))) = Inr ()
   \<and> out_tensor (snd (infer_shape plain_env (snd (infer_shape plain_env qadd_example))))
       = out_tensor (snd (infer_shape plain_env qadd_example))"
proof -
  have a: "\<forall>m. op_infer_shape plain_env m = Inr m" by (simp add: plain_env_def)
  have b: "\<forall>item \<in> set input_names. resolve qadd_example item \<noteq> None"
    by (simp add: input_names_def resolve_example)
  have c: "fst (infer_shape plain_env qadd_example) = Inr ()"
    using a by (simp add: infer_shape_example)
  show ?thesis using a b c infer_shape_idempotent [OF a b c] by (simp add: list_all_iff)
qed

text \<open>
  C6. Whatever the float tensor, when \<open>C_zero_point\<close> resolves to a tensor of integer type
  \<open>T\<close> (and \<open>C_scale\<close> resolves), a result of the requantization is a tensor of type \<open>T\<close>
  all of whose elements lie between \<open>np.iinfo(T).min\<close> and \<open>np.iinfo(T).max\<close>.
\<close>

theorem requantize_saturates:
  assumes z: "resolve n ''C_zero_point'' = Some (PTensor (ITensor T zsh zs))"
    and s: "resolve n ''C_scale'' = Some sv"
    and run: "fst (requantize E fy n) = Inr out"
  shows "\<exists>sh xs. out = ITensor T sh xs \<and> (\<forall>x \<in> set xs. iinfo_min T \<le> x \<and> x \<le> iinfo_max T)"
proof -
  obtain n' where "requantize E fy n
      = (requantize_value (cast_ub E) fy (Some (PTensor (ITensor T zsh zs))) (Some sv), n')"
    using same_view_refl z s by (rule requantize_runs)
  with run have "requantize_value (cast_ub E) fy (Some (PTensor (ITensor T zsh zs))) (Some sv) = Inr out"
    by simp
  then obtain shifted where
    "out = np_astype (cast_ub E) (IntT T) (np_clip shifted (iinfo_min T) (iinfo_max T))"
    by (auto simp: requantize_value_def bindE_def split: sum.splits)
  then show ?thesis
    using astype_clip_range [of "cast_ub E" T shifted "iinfo_min T" "iinfo_max T"]
    by (simp add: in_range_def)
qed

theorem requantize_saturates_witness:
  "resolve qadd_example ''C_zero_point'' = Some (PTensor (ITensor UInt8 [] [0]))
   \<and> resolve qadd_example ''C_scale'' = Some (PTensor (FTensor Float32 [] [Fin 1]))
   \<and> fst (requantize plain_env (FTensor Float64 [2] [Fin (15 / 2), Fin (25 / 2)]) qadd_example)
       = Inr (ITensor UInt8 [2] [8, 12])
   \<and> (\<exists>sh xs. ITensor UInt8 [2] [8, 12] = ITensor UInt8 sh xs
         \<and> (\<forall>x \<in> set xs. iinfo_min UInt8 \<le> x \<and> x \<le> iinfo_max UInt8))"
  using resolve_example(8) resolve_example(7) requantize_example [of plain_env]
    requantize_saturates [OF resolve_example(8) resolve_example(7) requantize_example [of plain_env]]
  by simp

text \<open>
  C8 as stated fails for a 32-bit tensor: the subtraction is done in int32, so with the
  least int32 value in \<open>A\<close> and a zero point of 1 the difference wraps around to
  2147483647 and the dequantized value is 2147483647.0, while
  \<open>(int_x - zero_point_x) * scale_x\<close> is -2147483649.0.
\<close>

theorem dequantize_counterexample:
  "fst (dequantize plain_env ''A'' ''A_zero_point'' ''A_scale'' wide_node)
     = Inr (FTensor Float64 [1] [Fin 2147483647])
   \<and> fmul Float64 (Fin (of_int (- 2147483648 - 1))) (Fin 1) = Fin (- 2147483649)"
proof -
  have r: "resolve wide_node ''A'' = Some (PTensor (ITensor Int32 [1] [- 2147483648]))"
    "resolve wide_node ''A_zero_point'' = Some (PTensor (ITensor Int32 [] [1]))"
    "resolve wide_node ''A_scale'' = Some (PTensor (FTensor Float32 [] [Fin 1]))"
    by (simp_all add: resolve_def declared_or_input_def stored_value_def wide_node_def named_store_def
        input_names_def zero_point_names_def)
  have v: "dequantize_value ub (Some (PTensor (ITensor Int32 [1] [- 2147483648])))
      (Some (PTensor (ITensor Int32 [] [1]))) (Some (PTensor (FTensor Float32 [] [Fin 1])))
      = Inr (FTensor Float64 [1] [Fin 2147483647])" for ub
    by (simp add: dequantize_value_def bindE_def np_subtract_def np_multiply_def np_binop_def
        broadcast_shapes_scalar map2_scalar promote_int_def promote_int_float_def wrap_def
        f_of_int_def fmul_def fround_numeral fround_one)
  have m: "fmul Float64 (Fin (of_int (- 2147483648 - 1))) (Fin 1) = Fin (- 2147483649)"
    using fround_int [of "- 2147483649" Float64] by (simp add: fmul_def)
  show ?thesis using dequantize_runs_value [OF r, of plain_env] v m by simp
qed

text \<open>
  C8, amended. For a tensor and a scalar zero point of integer types of at most 16 bits,
  and a scalar float32 scale: each dequantized element is the float64 product of the
  exact integer difference \<open>int_x - zero_point_x\<close> (no wrap-around, whichever of the two is
  larger) and the scale.
\<close>

theorem dequantize_small_types:
  assumes x: "resolve n x = Some (PTensor (ITensor T sh xs))"
    and z: "resolve n zp = Some (PTensor (ITensor Tz [] [z]))"
    and s: "resolve n sc = Some (PTensor (FTensor Float32 [] [s]))"
    and bT: "bits T \<le> 16" and bz: "bits Tz \<le> 16"
    and len: "length xs = prod_list sh"
    and xr: "\<forall>v \<in> set xs. in_range T v" and zr: "in_range Tz z"
  shows "fst (dequantize E x zp sc n)
         = Inr (FTensor Float64 sh (map (\<lambda>v. fmul Float64 (Fin (of_int (v - z))) (fconv Float64 s)) xs))"
proof -
  have pr: "promote_int Int32 Tz = IntT Int32"
    using bz by (cases Tz) (simp_all add: promote_int_def)
  have zb: "- 65536 \<le> z \<and> z \<le> 65536" using bz zr by (rule small_in_Int32)
  have xb: "- 65536 \<le> v \<and> v \<le> 65536" if "v \<in> set xs" for v
    using bT xr that small_in_Int32 by blast
  have x32: "\<forall>v \<in> set xs. in_range Int32 v"
    using xb by (fastforce simp: in_range_def iinfo_min_def iinfo_max_def)
  have diff: "\<forall>v \<in> set xs. in_range Int32 (v - z)"
    using xb zb by (fastforce simp: in_range_def iinfo_min_def iinfo_max_def)
  have ex: "f_of_int Float64 (v - z) = Fin (of_int (v - z))" if "v \<in> set xs" for v
  proof -
    have "\<bar>v - z\<bar> < 9007199254740992" using xb [OF that] zb by linarith
    then have "\<bar>v - z\<bar> < 2 ^ prec Float64" by simp
    then show ?thesis unfolding f_of_int_def by (rule fround_int)
  qed
  have "fst (dequantize E x zp sc n)
      = Inr (FTensor Float64 sh (map (\<lambda>v. fmul Float64 (f_of_int Float64 (v - z)) (fconv Float64 s)) xs))"
    using dequantize_runs_value [OF x z s, of E]
      dequantize_value_scalar [OF len pr x32 zr diff, of "cast_ub E" T s] by simp
  also have "map (\<lambda>v. fmul Float64 (f_of_int Float64 (v - z)) (fconv Float64 s)) xs
      = map (\<lambda>v. fmul Float64 (Fin (of_int (v - z))) (fconv Float64 s)) xs"
    using ex by simp
  finally show ?thesis .
qed

theorem dequantize_small_types_witness:
  "resolve low_node ''A'' = Some (PTensor (ITensor UInt8 [2] [3, 250]))
   \<and> resolve low_node ''A_zero_point'' = Some (PTensor (ITensor UInt8 [] [200]))
   \<and> resolve low_node ''A_scale'' = Some (PTensor (FTensor Float32 [] [Fin (1 / 2)]))
   \<and> bits UInt8 \<le> 16 \<and> length [3, 250 :: int] = prod_list [2]
   \<and> list_all (in_range UInt8) [3, 250] \<and> in_range UInt8 200
   \<and> fst (dequantize plain_env ''A'' ''A_zero_point'' ''A_scale'' low_node)
       = Inr (FTensor Float64 [2] [Fin (- 197 / 2), Fin 25])"
proof -
  have r: "resolve low_node ''A'' = Some (PTensor (ITensor UInt8 [2] [3, 250]))"
    "resolve low_node ''A_zero_point'' = Some (PTensor (ITensor UInt8 [] [200]))"
    "resolve low_node ''A_scale'' = Some (PTensor (FTensor Float32 [] [Fin (1 / 2)]))"
    by (simp_all add: resolve_def declared_or_input_def stored_value_def low_node_def named_store_def
        input_names_def zero_point_names_def)
  have b: "bits UInt8 \<le> 16" by simp
  have l: "length [3, 250 :: int] = prod_list [2]" by simp
  have xr: "\<forall>v \<in> set [3, 250]. in_range UInt8 v"
    by (simp add: in_range_def iinfo_min_def iinfo_max_def)
  have zr: "in_range UInt8 200" by (simp add: in_range_def iinfo_min_def iinfo_max_def)
  have m: "fmul Float64 (Fin (- 197)) (Fin (1 / 2)) = Fin (- 197 / 2)"
    "fmul Float64 (Fin 50) (Fin (1 / 2)) = Fin 25"
    using fround_half [of "- 197" Float64] fround_int [of 25 Float64] by (simp_all add: fmul_def)
  show ?thesis
    using r b l xr zr m dequantize_small_types [OF r b b l xr zr, of plain_env]
    by (simp add: fround_one_half list_all_iff)
qed

section \<open>Properties of the torch front end\<close>

text \<open>
  C10 (code evaluated at the failing input). Two \<open>Long\<close> tensors of the same static shape
  \<open>[1]\<close>: \<open>convert_equal\<close> does not compare the inputs themselves. It first emits a
  \<open>Cast\<close> to BOOL for each of them and applies \<open>Equal\<close> to the two casts, so the emitted
  expression is \<open>Not(ReduceSum(Not(Equal(Cast(input), Cast(other)))))\<close>, which differs from
  \<open>Not(ReduceSum(Not(Equal(input, other))))\<close>.
\<close>

theorem convert_equal_casts_long_inputs:
  "convert_equal []
      \<lparr>tv_origin = GraphArg 0, scalarType = Some ''Long'', tensor_sizes = Some [Some 1]\<rparr>
      \<lparr>tv_origin = GraphArg 1, scalarType = Some ''Long'', tensor_sizes = Some [Some 1]\<rparr>
   = Inr ([NodeOut ''Cast'' [GraphArg 0] [(''to'', AttrInt 9)],
           NodeOut ''Cast'' [GraphArg 1] [(''to'', AttrInt 9)],
           NodeOut ''Equal'' [NodeOut ''Cast'' [GraphArg 0] [(''to'', AttrInt 9)],
                              NodeOut ''Cast'' [GraphArg 1] [(''to'', AttrInt 9)]] [],
           NodeOut ''Not'' [NodeOut ''Equal'' [NodeOut ''Cast'' [GraphArg 0] [(''to'', AttrInt 9)],
                              NodeOut ''Cast'' [GraphArg 1] [(''to'', AttrInt 9)]] []] [],
           NodeOut ''ReduceSum'' [NodeOut ''Not'' [NodeOut ''Equal'' [NodeOut ''Cast'' [GraphArg 0] [(''to'', AttrInt 9)],
                              NodeOut ''Cast'' [GraphArg 1] [(''to'', AttrInt 9)]] []] []] [(''keepdims'', AttrInt 0)],
           NodeOut ''Not'' [NodeOut ''ReduceSum'' [NodeOut ''Not'' [NodeOut ''Equal'' [NodeOut ''Cast'' [GraphArg 0] [(''to'', AttrInt 9)],
                              NodeOut ''Cast'' [GraphArg 1] [(''to'', AttrInt 9)]] []] []] [(''keepdims'', AttrInt 0)]] []],
          \<lparr>tv_origin = NodeOut ''Not'' [NodeOut ''ReduceSum'' [NodeOut ''Not'' [NodeOut ''Equal'' [NodeOut ''Cast'' [GraphArg 0] [(''to'', AttrInt 9)],
                              NodeOut ''Cast'' [GraphArg 1] [(''to'', AttrInt 9)]] []] []] [(''keepdims'', AttrInt 0)]] [],
           scalarType = None, tensor_sizes = None\<rparr>)
   \<and> map_sum id (tv_origin \<circ> snd) (convert_equal []
      \<lparr>tv_origin = GraphArg 0, scalarType = Some ''Long'', tensor_sizes = Some [Some 1]\<rparr>
      \<lparr>tv_origin = GraphArg 1, scalarType = Some ''Long'', tensor_sizes = Some [Some 1]\<rparr>)
     \<noteq> Inr (NodeOut ''Not'' [NodeOut ''ReduceSum'' [NodeOut ''Not''
               [NodeOut ''Equal'' [GraphArg 0, GraphArg 1] []] []] [(''keepdims'', AttrInt 0)]] [])"
  by (simp add: convert_equal_def convert_logical_def convert_to_bool_def g_op_def
      TensorProto_BOOL_def Let_def)

end
